theory Spec2Isabelle
  imports Complex_Main
begin

section \<open>Object placement pipeline of the Roam map generator\<close>

text \<open>
  A shallow embedding of \<^verbatim>\<open>gridGenerator.js\<close>, \<^verbatim>\<open>terrainAnalyzer.js\<close>,
  \<^verbatim>\<open>objectDefinitions.js\<close> and \<^verbatim>\<open>placementMaskGenerator.js\<close>.

  JavaScript numbers are modelled as \<open>real\<close>: rounding of doubles is not modelled. A
  division by zero yields \<open>Infinity\<close> or \<open>NaN\<close> in the source and \<open>0\<close> in HOL; the theorems
  that go through a quotient assume that its denominator is not zero (a grid of positive
  dimensions, a radius other than \<open>0\<close>, a positive \<^verbatim>\<open>maxSlope\<close>). Integer grid coordinates
  are \<open>int\<close>, since the source adds the offsets \<open>-1, 0, 1\<close> to them before the bounds
  check. \<open>Math.random()\<close> is the ambient generator of the runtime: the model reads its
  successive results from a sequence \<open>rnd :: nat \<Rightarrow> real\<close> and threads the number of
  draws made so far.
\<close>

subsection \<open>Data model\<close>

datatype elevation = Lowland | Midland | Highland

record terrainFeatures =
  isPeak :: bool
  isValley :: bool
  isRidge :: bool
  isFlat :: bool
  isSteep :: bool
  elevationClass :: elevation

datatype direction =
  North | South | East | West | Northeast | Northwest | Southeast | Southwest

text \<open>\<^verbatim>\<open>cell.properties\<close> once the analyzer has written it.\<close>

record properties =
  p_height :: real
  p_minHeight :: real
  p_maxHeight :: real
  p_slope :: real
  p_slopes :: "direction \<Rightarrow> real"
  p_terrainFeatures :: terrainFeatures

text \<open>
  A grid cell. \<open>properties = None\<close> is the empty object \<^verbatim>\<open>{}\<close> that \<^verbatim>\<open>createGrid\<close> stores:
  it is truthy and every field read from it is \<^verbatim>\<open>undefined\<close>. \<open>suitability\<close> is the
  dictionary from object type to score. The field \<^verbatim>\<open>objects\<close> is never read or written
  by the pipeline and is left out.
\<close>

record cell =
  gridX :: int
  gridY :: int
  c_x :: real
  c_y :: real
  c_width :: real
  c_height :: real
  centerX :: real
  centerY :: real
  properties :: "properties option"
  suitability :: "string \<Rightarrow> real option"

record grid =
  g_width :: real
  g_height :: real
  gridSize :: nat
  cellWidth :: real
  cellHeight :: real
  cells :: "cell list"

subsection \<open>gridGenerator.js\<close>

definition mkCell :: "real \<Rightarrow> real \<Rightarrow> nat \<Rightarrow> nat \<Rightarrow> cell" where
  "mkCell cw ch xi yi =
     \<lparr> gridX = int xi, gridY = int yi,
       c_x = real xi * cw, c_y = real yi * ch,
       c_width = cw, c_height = ch,
       centerX = (real xi + 0.5) * cw, centerY = (real yi + 0.5) * ch,
       properties = None, suitability = (\<lambda>_. None) \<rparr>"

definition createGrid :: "real \<Rightarrow> real \<Rightarrow> nat \<Rightarrow> grid" where
  "createGrid mapWidth mapHeight n =
     (let cw = mapWidth / real n; ch = mapHeight / real n in
      \<lparr> g_width = mapWidth, g_height = mapHeight, gridSize = n,
        cellWidth = cw, cellHeight = ch,
        cells = concat (map (\<lambda>yi. map (\<lambda>xi. mkCell cw ch xi yi) [0..<n]) [0..<n]) \<rparr>)"

text \<open>
  \<^verbatim>\<open>getCellByIndices\<close>: \<^verbatim>\<open>null\<close> outside the lattice. Inside it the source returns
  \<^verbatim>\<open>this.cells[gridY * gridSize + gridX]\<close>, which is \<^verbatim>\<open>undefined\<close> (falsy, like \<^verbatim>\<open>null\<close>)
  when the array is shorter.
\<close>

definition getCellByIndices :: "grid \<Rightarrow> int \<Rightarrow> int \<Rightarrow> cell option" where
  "getCellByIndices g gx gy =
     (if 0 \<le> gx \<and> gx < int (gridSize g) \<and> 0 \<le> gy \<and> gy < int (gridSize g)
      then (let k = nat (gy * int (gridSize g) + gx) in
            if k < length (cells g) then Some (cells g ! k) else None)
      else None)"

definition neighborOffsets :: "(int \<times> int) list" where
  "neighborOffsets =
     [(-1, -1), (0, -1), (1, -1),
      (-1, 0),           (1, 0),
      (-1, 1),  (0, 1),  (1, 1)]"

definition getNeighbors :: "grid \<Rightarrow> cell \<Rightarrow> cell list" where
  "getNeighbors g c =
     List.map_filter (\<lambda>(dx, dy). getCellByIndices g (gridX c + dx) (gridY c + dy))
       neighborOffsets"

text \<open>
  \<^verbatim>\<open>getCellsInRadius\<close>: the two nested loops over \<open>dy\<close> and \<open>dx\<close>, from \<open>-radiusInCells\<close> to
  \<open>radiusInCells\<close>. They are finite when the cells have a positive width and height.
\<close>

definition getCellsInRadius :: "grid \<Rightarrow> real \<Rightarrow> real \<Rightarrow> real \<Rightarrow> cell list" where
  "getCellsInRadius g cx cy radius =
     (let centerGridX = \<lfloor>cx / cellWidth g\<rfloor>;
          centerGridY = \<lfloor>cy / cellHeight g\<rfloor>;
          radiusInCells = \<lceil>radius / min (cellWidth g) (cellHeight g)\<rceil>
      in concat (map (\<lambda>dy. concat (map (\<lambda>dx.
           (let gx = centerGridX + dx; gy = centerGridY + dy in
            if 0 \<le> gx \<and> gx < int (gridSize g) \<and> 0 \<le> gy \<and> gy < int (gridSize g)
            then (case getCellByIndices g gx gy of
                    None \<Rightarrow> []
                  | Some c \<Rightarrow>
                      (let cellCenterX = (real_of_int gx + 0.5) * cellWidth g;
                           cellCenterY = (real_of_int gy + 0.5) * cellHeight g;
                           distance = sqrt ((cellCenterX - cx)\<^sup>2 + (cellCenterY - cy)\<^sup>2)
                       in if distance \<le> radius then [c] else []))
            else []))
           [- radiusInCells .. radiusInCells]))
         [- radiusInCells .. radiusInCells]))"

subsection \<open>terrainAnalyzer.js\<close>

text \<open>\<^verbatim>\<open>String.prototype.includes\<close>: the second string occurs somewhere in the first.\<close>

fun str_includes :: "string \<Rightarrow> string \<Rightarrow> bool" where
  "str_includes [] t = (t = [])"
| "str_includes (c # cs) t = (take (length t) (c # cs) = t \<or> str_includes cs t)"

text \<open>The keys of the \<^verbatim>\<open>directions\<close> object, in the order \<^verbatim>\<open>Object.entries\<close> lists them.\<close>

definition directions :: "direction list" where
  "directions = [North, South, East, West, Northeast, Northwest, Southeast, Southwest]"

fun dirName :: "direction \<Rightarrow> string" where
  "dirName North = ''north''"
| "dirName South = ''south''"
| "dirName East = ''east''"
| "dirName West = ''west''"
| "dirName Northeast = ''northeast''"
| "dirName Northwest = ''northwest''"
| "dirName Southeast = ''southeast''"
| "dirName Southwest = ''southwest''"

fun delta :: "direction \<Rightarrow> int \<times> int" where
  "delta North = (0, -1)"
| "delta South = (0, 1)"
| "delta East = (1, 0)"
| "delta West = (-1, 0)"
| "delta Northeast = (1, -1)"
| "delta Northwest = (-1, -1)"
| "delta Southeast = (1, 1)"
| "delta Southwest = (-1, 1)"

text \<open>The distance expression of \<^verbatim>\<open>calculateDirectionalSlopes\<close> (lines 102 to 104).\<close>

definition slopeDistance :: "direction \<Rightarrow> cell \<Rightarrow> real" where
  "slopeDistance d c =
     (if str_includes (dirName d) ''north'' \<or> str_includes (dirName d) ''south'' \<or>
         str_includes (dirName d) ''east'' \<or> str_includes (dirName d) ''west''
      then c_width c
      else sqrt (2 * c_width c * c_width c))"

definition slopeStep ::
  "(real \<Rightarrow> real \<Rightarrow> real) \<Rightarrow> grid \<Rightarrow> cell \<Rightarrow> direction \<Rightarrow> (direction \<Rightarrow> real) \<Rightarrow> direction \<Rightarrow> real"
where
  "slopeStep getHeight g c d slopes =
     (let centerHeight = getHeight (centerX c) (centerY c);
          neighborX = gridX c + fst (delta d);
          neighborY = gridY c + snd (delta d)
      in case getCellByIndices g neighborX neighborY of
           None \<Rightarrow> slopes
         | Some nb \<Rightarrow>
             (let neighborHeight = getHeight (centerX nb) (centerY nb)
              in slopes(d := (neighborHeight - centerHeight) / slopeDistance d c)))"

definition calculateDirectionalSlopes ::
  "cell \<Rightarrow> grid \<Rightarrow> (real \<Rightarrow> real \<Rightarrow> real) \<Rightarrow> direction \<Rightarrow> real"
where
  "calculateDirectionalSlopes c g getHeight =
     fold (slopeStep getHeight g c) directions (\<lambda>_. 0)"

text \<open>
  \<^verbatim>\<open>classifyTerrainFeatures\<close>. Its reads of the cell's own \<^verbatim>\<open>properties.height\<close>,
  \<^verbatim>\<open>.slope\<close> and \<^verbatim>\<open>.slopes\<close>, which the caller has assigned just before the call, are
  the arguments \<open>h\<close>, \<open>sl\<close> and \<open>sls\<close>. A neighbour is read from the grid as it is at the
  time of the call: for one whose \<open>properties\<close> is still \<^verbatim>\<open>{}\<close> the comparison of
  \<^verbatim>\<open>undefined\<close> with a number is false.
\<close>

definition neighborLower :: "real \<Rightarrow> cell \<Rightarrow> bool" where
  "neighborLower h nb = (case properties nb of None \<Rightarrow> False | Some p \<Rightarrow> p_height p < h)"

definition neighborHigher :: "real \<Rightarrow> cell \<Rightarrow> bool" where
  "neighborHigher h nb = (case properties nb of None \<Rightarrow> False | Some p \<Rightarrow> p_height p > h)"

definition ridgeDirections :: "(direction \<times> direction) list" where
  "ridgeDirections =
     [(North, South), (East, West), (Northeast, Southwest), (Northwest, Southeast)]"

definition classifyTerrainFeatures ::
  "real \<Rightarrow> real \<Rightarrow> (direction \<Rightarrow> real) \<Rightarrow> cell \<Rightarrow> grid \<Rightarrow> terrainFeatures"
where
  "classifyTerrainFeatures h sl sls c g =
     (let neighbors = getNeighbors g c in
      \<lparr> isPeak = list_all (neighborLower h) neighbors,
        isValley = list_all (neighborHigher h) neighbors,
        isRidge = list_ex (\<lambda>(dir1, dir2). sls dir1 * sls dir2 < 0) ridgeDirections,
        isFlat = (sl < 0.05),
        isSteep = (sl > 0.3),
        elevationClass =
          (if h < 0.2 then Lowland else if h < 0.6 then Midland else Highland) \<rparr>)"

definition sampleCount :: nat where
  "sampleCount = 5"

definition cellSamples :: "(real \<Rightarrow> real \<Rightarrow> real) \<Rightarrow> cell \<Rightarrow> real list" where
  "cellSamples getHeight c =
     concat (map (\<lambda>sy. map (\<lambda>sx.
         getHeight (c_x c + (real sx + 0.5) * (c_width c / real sampleCount))
                   (c_y c + (real sy + 0.5) * (c_height c / real sampleCount)))
       [0..<sampleCount]) [0..<sampleCount])"

text \<open>
  The body of the loop of \<^verbatim>\<open>calculateHeightAndSlope\<close> for one cell: the terrain data
  it stores in \<^verbatim>\<open>cell.properties\<close>. The cell is classified inside the loop, against the
  grid as it stands when the cell's own turn comes.
\<close>

definition analyzedProperties :: "(real \<Rightarrow> real \<Rightarrow> real) \<Rightarrow> cell \<Rightarrow> grid \<Rightarrow> properties" where
  "analyzedProperties getHeight c g =
     (let samples = cellSamples getHeight c;
          avgHeight = foldl (+) 0 samples / real (length samples);
          minHeight = Min (set samples);
          maxHeight = Max (set samples);
          slope = (maxHeight - minHeight) / c_width c;
          slopes = calculateDirectionalSlopes c g getHeight
      in \<lparr> p_height = avgHeight, p_minHeight = minHeight, p_maxHeight = maxHeight,
           p_slope = slope, p_slopes = slopes,
           p_terrainFeatures = classifyTerrainFeatures avgHeight slope slopes c g \<rparr>)"

text \<open>One iteration, on the cell at index \<open>k\<close>; the grid is the state.\<close>

definition analyzeCell :: "(real \<Rightarrow> real \<Rightarrow> real) \<Rightarrow> nat \<Rightarrow> grid \<Rightarrow> grid" where
  "analyzeCell getHeight k g =
     g\<lparr>cells := (cells g)[k := (cells g ! k)\<lparr>properties :=
         Some (analyzedProperties getHeight (cells g ! k) g)\<rparr>]\<rparr>"

definition calculateHeightAndSlope :: "(real \<Rightarrow> real \<Rightarrow> real) \<Rightarrow> grid \<Rightarrow> grid" where
  "calculateHeightAndSlope getHeight g =
     fold (analyzeCell getHeight) [0..<length (cells g)] g"

subsection \<open>objectDefinitions.js\<close>

text \<open>
  The rule table, restricted to the fields the pipeline reads: of \<^verbatim>\<open>placementRules\<close>
  the slope and height limits, of a subtype its \<^verbatim>\<open>customRules\<close>, of which the seven flags
  below are the only ones tested anywhere. A flag that a subtype does not declare is
  \<^verbatim>\<open>undefined\<close>, hence falsy: \<open>False\<close>. \<^verbatim>\<open>waterObject\<close> declares no \<^verbatim>\<open>maxSlope\<close>: \<open>None\<close>.
\<close>

record customRules =
  preferHigherElevation :: bool
  preferLowerElevation :: bool
  preferSteepSlopes :: bool
  requireFlatArea :: bool
  requireWaterAccess :: bool
  requireDeepWater :: bool
  requireWaterEdge :: bool

record placementRules =
  maxSlope :: "real option"
  r_minHeight :: real
  r_maxHeight :: real

record objectDef =
  placementRules :: placementRules
  defaultDistribution :: string
  priority :: int
  subtypes :: "string \<Rightarrow> customRules option"

definition emptyRules :: customRules where
  "emptyRules =
     \<lparr> preferHigherElevation = False, preferLowerElevation = False,
       preferSteepSlopes = False, requireFlatArea = False, requireWaterAccess = False,
       requireDeepWater = False, requireWaterEdge = False \<rparr>"

definition treeDef :: objectDef where
  "treeDef =
     \<lparr> placementRules = \<lparr> maxSlope = Some 0.15, r_minHeight = 0.05, r_maxHeight = 0.8 \<rparr>,
       defaultDistribution = ''natural'',
       priority = 2,
       subtypes = (\<lambda>s.
         if s = ''oak'' then Some emptyRules
         else if s = ''pine'' then Some (emptyRules\<lparr>preferHigherElevation := True\<rparr>)
         else if s = ''palm'' then Some (emptyRules\<lparr>preferLowerElevation := True\<rparr>)
         else None) \<rparr>"

definition rockDef :: objectDef where
  "rockDef =
     \<lparr> placementRules = \<lparr> maxSlope = Some 0.3, r_minHeight = 0.0, r_maxHeight = 1.0 \<rparr>,
       defaultDistribution = ''random'',
       priority = 3,
       subtypes = (\<lambda>s.
         if s = ''rock'' then Some emptyRules
         else if s = ''boulder''
           then Some (emptyRules\<lparr>preferHigherElevation := True, preferSteepSlopes := True\<rparr>)
         else None) \<rparr>"

definition buildingDef :: objectDef where
  "buildingDef =
     \<lparr> placementRules = \<lparr> maxSlope = Some 0.05, r_minHeight = 0.1, r_maxHeight = 0.5 \<rparr>,
       defaultDistribution = ''clustered'',
       priority = 1,
       subtypes = (\<lambda>s.
         if s = ''house'' then Some emptyRules
         else if s = ''village'' then Some (emptyRules\<lparr>requireFlatArea := True\<rparr>)
         else if s = ''town'' then Some (emptyRules\<lparr>requireFlatArea := True\<rparr>)
         else if s = ''city''
           then Some (emptyRules\<lparr>requireFlatArea := True, requireWaterAccess := True\<rparr>)
         else if s = ''farm'' then Some emptyRules
         else None) \<rparr>"

definition waterObjectDef :: objectDef where
  "waterObjectDef =
     \<lparr> placementRules = \<lparr> maxSlope = None, r_minHeight = 0.0, r_maxHeight = 0.2 \<rparr>,
       defaultDistribution = ''water'',
       priority = 2,
       subtypes = (\<lambda>s.
         if s = ''boat'' then Some (emptyRules\<lparr>requireDeepWater := True\<rparr>)
         else if s = ''dock'' then Some (emptyRules\<lparr>requireWaterEdge := True\<rparr>)
         else None) \<rparr>"

definition vegetationDef :: objectDef where
  "vegetationDef =
     \<lparr> placementRules = \<lparr> maxSlope = Some 0.2, r_minHeight = 0.05, r_maxHeight = 0.7 \<rparr>,
       defaultDistribution = ''natural'',
       priority = 4,
       subtypes = (\<lambda>s.
         if s = ''bush'' then Some emptyRules
         else if s = ''grass'' then Some emptyRules
         else if s = ''flower'' then Some emptyRules
         else None) \<rparr>"

text \<open>
  \<^verbatim>\<open>objectDefinitions\<close> is a plain object, so the lookup \<^verbatim>\<open>objectDefinitions[key]\<close> has three
  outcomes: one of the five definitions for an own key; \<^verbatim>\<open>undefined\<close> for a key that is
  nowhere; and, for a key of \<^verbatim>\<open>Object.prototype\<close>, the inherited member, which is truthy and
  is no definition (it has no \<^verbatim>\<open>placementRules\<close>, \<^verbatim>\<open>subtypes\<close> or \<^verbatim>\<open>priority\<close>).
\<close>

definition objectPrototypeKeys :: "string list" where
  "objectPrototypeKeys =
     [''constructor'', ''__defineGetter__'', ''__defineSetter__'', ''hasOwnProperty'',
      ''__lookupGetter__'', ''__lookupSetter__'', ''isPrototypeOf'', ''propertyIsEnumerable'',
      ''toString'', ''valueOf'', ''__proto__'', ''toLocaleString'']"

datatype lookup = Undefined | Definition objectDef | Inherited

definition objectDefinitions :: "string \<Rightarrow> lookup" where
  "objectDefinitions t =
     (if t = ''tree'' then Definition treeDef
      else if t = ''rock'' then Definition rockDef
      else if t = ''building'' then Definition buildingDef
      else if t = ''waterObject'' then Definition waterObjectDef
      else if t = ''vegetation'' then Definition vegetationDef
      else if t \<in> set objectPrototypeKeys then Inherited
      else Undefined)"

subsection \<open>Object requests\<close>

text \<open>
  A request as \<^verbatim>\<open>promptParser.js\<close> builds it. \<open>terrain = None\<close> is \<^verbatim>\<open>null\<close>; an absent
  \<^verbatim>\<open>location\<close> or \<^verbatim>\<open>distribution\<close> is \<open>None\<close>.
\<close>

record location =
  l_x :: real
  l_y :: real
  radius :: real
  terrain :: "string option"

record objectData =
  o_type :: string
  subType :: string
  density :: real
  location :: "location option"
  distribution :: "string option"

subsection \<open>placementMaskGenerator.js: the suitability engine\<close>

text \<open>
  The engine and the strategies run on the grid that \<^verbatim>\<open>calculateHeightAndSlope\<close> has
  returned, in which every cell's \<^verbatim>\<open>properties\<close> is populated; \<open>props\<close> reads it.
  The theorems below assume \<open>analyzed\<close> of the grid they talk about.
\<close>

definition props :: "cell \<Rightarrow> properties" where
  "props c = the (properties c)"

definition analyzed :: "grid \<Rightarrow> bool" where
  "analyzed g = list_all (\<lambda>c. properties c \<noteq> None) (cells g)"

definition calculateDistance :: "real \<Rightarrow> real \<Rightarrow> real \<Rightarrow> real \<Rightarrow> real" where
  "calculateDistance x1 y1 x2 y2 = sqrt ((x2 - x1)\<^sup>2 + (y2 - y1)\<^sup>2)"

text \<open>
  \<^verbatim>\<open>features.slope\<close> in \<^verbatim>\<open>cellHasTerrainFeature\<close>: the object that
  \<^verbatim>\<open>classifyTerrainFeatures\<close> returns has no key \<^verbatim>\<open>slope\<close>, so the read is \<^verbatim>\<open>undefined\<close>
  and its comparison with a number is false.
\<close>

definition featuresSlope :: "terrainFeatures \<Rightarrow> real option" where
  "featuresSlope f = None"

definition gtNumber :: "real option \<Rightarrow> real \<Rightarrow> bool" where
  "gtNumber v b = (case v of None \<Rightarrow> False | Some a \<Rightarrow> a > b)"

definition cellHasTerrainFeature :: "cell \<Rightarrow> string \<Rightarrow> bool" where
  "cellHasTerrainFeature c terrainType =
     (let features = p_terrainFeatures (props c) in
      if terrainType = ''mountains''
        then elevationClass features = Highland \<and> gtNumber (featuresSlope features) 0.2
      else if terrainType = ''hills''
        then elevationClass features = Midland \<and> gtNumber (featuresSlope features) 0.1
      else if terrainType = ''flatlands'' then isFlat features
      else if terrainType = ''river'' \<or> terrainType = ''lake''
        then p_height (props c) < 0.1
      else if terrainType = ''forest''
        then p_slope (props c) < 0.15 \<and> p_height (props c) > 0.05 \<and> p_height (props c) < 0.8
      else False)"

text \<open>\<^verbatim>\<open>objectDef.subtypes[objectData.subType]?.customRules || {}\<close>\<close>

definition subTypeRulesOf :: "objectDef \<Rightarrow> string \<Rightarrow> customRules" where
  "subTypeRulesOf d st = (case subtypes d st of None \<Rightarrow> emptyRules | Some r \<Rightarrow> r)"

text \<open>
  The factor by which step "location-based suitability" multiplies the score. In the
  anchored branch the source divides by \<^verbatim>\<open>objectData.location.radius\<close>: with a radius of
  \<open>0\<close> and the cell centre on the anchor it computes \<open>0.5 \<cdot> 0 / 0\<close>, which is \<open>NaN\<close>, and the
  score it stores is \<open>NaN\<close>. HOL's quotient is \<open>0\<close> there, so the model is the source only
  for a radius other than \<open>0\<close>; the bounds proved of the score below assume it.
\<close>

definition locationFactor :: "objectData \<Rightarrow> grid \<Rightarrow> cell \<Rightarrow> real" where
  "locationFactor od g c =
     (case location od of
        None \<Rightarrow> 1
      | Some l \<Rightarrow>
          (if terrain l \<noteq> None \<and> terrain l \<noteq> Some []
           then (if \<not> cellHasTerrainFeature c (the (terrain l)) then 0.1 else 1.5)
           else (let distance = calculateDistance (centerX c / g_width g) (centerY c / g_height g)
                                  (l_x l) (l_y l)
                 in if distance \<le> radius l
                    then 1.0 - (0.5 * distance / radius l)
                    else 0.2)))"

definition hasWaterNeighbor :: "grid \<Rightarrow> cell \<Rightarrow> bool" where
  "hasWaterNeighbor g c =
     list_ex (\<lambda>n. p_height (props n) < 0.1 \<and>
                  elevationClass (p_terrainFeatures (props n)) = Lowland)
       (getNeighbors g c)"

text \<open>
  The value that one iteration of the loop of \<^verbatim>\<open>calculateObjectSuitability\<close> leaves in
  \<^verbatim>\<open>cell.suitability[objectData.type]\<close>: \<open>0\<close> on either \<^verbatim>\<open>continue\<close>, else the product.
  A comparison with an \<^verbatim>\<open>undefined\<close> \<^verbatim>\<open>maxSlope\<close> is false. The steep-slope factor divides by
  \<^verbatim>\<open>maxSlope\<close>; the theorems that reach it assume that \<^verbatim>\<open>maxSlope\<close> is declared and positive.
\<close>

definition suitabilityScore :: "objectData \<Rightarrow> objectDef \<Rightarrow> grid \<Rightarrow> cell \<Rightarrow> real" where
  "suitabilityScore od d g c =
     (let rules = placementRules d;
          subTypeRules = subTypeRulesOf d (subType od);
          h = p_height (props c);
          sl = p_slope (props c)
      in if (case maxSlope rules of None \<Rightarrow> False | Some m \<Rightarrow> sl > m) then 0
         else if h < r_minHeight rules \<or> h > r_maxHeight rules then 0
         else
           (let s0 = 1.0;
                s1 = s0 * locationFactor od g c;
                s2 = (if preferHigherElevation subTypeRules then s1 * (0.5 + h * 0.5) else s1);
                s3 = (if preferLowerElevation subTypeRules then s2 * (1.0 - h * 0.5) else s2);
                s4 = (if preferSteepSlopes subTypeRules
                      then s3 * (0.5 + (sl / the (maxSlope rules)) * 0.5) else s3);
                s5 = (if requireFlatArea subTypeRules \<and> \<not> isFlat (p_terrainFeatures (props c))
                      then s4 * 0.1 else s4);
                s6 = (if requireWaterAccess subTypeRules \<and> \<not> hasWaterNeighbor g c
                      then s5 * 0.1 else s5)
            in s6 * density od))"

text \<open>
  The loop writes only \<^verbatim>\<open>cell.suitability\<close> and reads only \<^verbatim>\<open>properties\<close> (its own and its
  neighbours'), so each cell's score is computed against the same grid.
\<close>

definition calculateObjectSuitability :: "objectData \<Rightarrow> objectDef \<Rightarrow> grid \<Rightarrow> grid" where
  "calculateObjectSuitability od d g =
     g\<lparr>cells := map (\<lambda>c. c\<lparr>suitability :=
          (suitability c)(o_type od := Some (suitabilityScore od d g c))\<rparr>) (cells g)\<rparr>"

subsection \<open>placementMaskGenerator.js: the distribution strategies\<close>

record mask =
  m_grid :: nat
  m_width :: real
  m_height :: real
  m_cells :: "int list"

text \<open>\<^verbatim>\<open>cell.suitability[objectData.type] || 0\<close>\<close>

definition suitOr0 :: "cell \<Rightarrow> string \<Rightarrow> real" where
  "suitOr0 c ty = (case suitability c ty of None \<Rightarrow> 0 | Some v \<Rightarrow> v)"

text \<open>
  \<^verbatim>\<open>cell.gridY * grid.gridSize + cell.gridX\<close>, and the reads and writes of \<^verbatim>\<open>mask.cells\<close> at
  such an index. A read outside the array is \<^verbatim>\<open>undefined\<close>, which is not \<^verbatim>\<open>1\<close>. A write
  outside the array would grow it in the source; the model leaves the list as it is, and
  the theorems below are about grids whose cells carry their own row-major position, where
  every such index is inside.
\<close>

definition maskIndex :: "grid \<Rightarrow> cell \<Rightarrow> int" where
  "maskIndex g c = gridY c * int (gridSize g) + gridX c"

definition maskIs1 :: "int list \<Rightarrow> int \<Rightarrow> bool" where
  "maskIs1 m i = (0 \<le> i \<and> nat i < length m \<and> m ! nat i = 1)"

definition maskSet :: "int list \<Rightarrow> int \<Rightarrow> int \<Rightarrow> int list" where
  "maskSet m i v = (if 0 \<le> i \<and> nat i < length m then m[nat i := v] else m)"

text \<open>
  Every loop below has the state \<open>(mask.cells, n)\<close>, \<open>n\<close> the number of calls of
  \<^verbatim>\<open>Math.random()\<close> made so far; the next call returns \<open>rnd n\<close>.
\<close>

definition randomStep ::
  "(nat \<Rightarrow> real) \<Rightarrow> string \<Rightarrow> grid \<Rightarrow> nat \<Rightarrow> int list \<times> nat \<Rightarrow> int list \<times> nat" where
  "randomStep rnd ty g i st =
     (let m = fst st; n = snd st;
          suitability = suitOr0 (cells g ! i) ty
      in (if rnd n < suitability then m[i := 1] else m, Suc n))"

definition createRandomDistributionMask ::
  "(nat \<Rightarrow> real) \<Rightarrow> objectData \<Rightarrow> mask \<times> nat \<Rightarrow> grid \<Rightarrow> mask \<times> nat" where
  "createRandomDistributionMask rnd od st g =
     (let r = fold (randomStep rnd (o_type od) g) [0..<length (cells g)]
                (m_cells (fst st), snd st)
      in ((fst st)\<lparr>m_cells := fst r\<rparr>, snd r))"

definition suitabilityThreshold :: real where
  "suitabilityThreshold = 0.3"

text \<open>The seeding loop of the natural strategy: \<^verbatim>\<open>&&\<close> draws only past the threshold.\<close>

definition naturalSeedStep ::
  "(nat \<Rightarrow> real) \<Rightarrow> string \<Rightarrow> grid \<Rightarrow> nat \<Rightarrow> int list \<times> nat \<Rightarrow> int list \<times> nat" where
  "naturalSeedStep rnd ty g i st =
     (let m = fst st; n = snd st;
          suitability = suitOr0 (cells g ! i) ty
      in if suitability > suitabilityThreshold
         then (if rnd n < suitability then m[i := 1] else m, Suc n)
         else (m, n))"

text \<open>
  One cell of one cellular-automaton iteration: \<open>m\<close> is \<^verbatim>\<open>mask.cells\<close>, read only;
  \<open>newMask\<close> is the copy being written. The birth rule reads the score without \<^verbatim>\<open>|| 0\<close>.
\<close>

definition caStep :: "string \<Rightarrow> grid \<Rightarrow> int list \<Rightarrow> nat \<Rightarrow> int list \<Rightarrow> int list" where
  "caStep ty g m i newMask =
     (let c = cells g ! i;
          neighbors = getNeighbors g c;
          activeNeighbors = length (filter (\<lambda>n. maskIs1 m (maskIndex g n)) neighbors);
          idx = maskIndex g c
      in if maskIs1 m idx
         then (if activeNeighbors < 2 \<or> activeNeighbors > 6 then maskSet newMask idx 0
               else newMask)
         else (if activeNeighbors \<ge> 3 \<and> activeNeighbors \<le> 4 \<and>
                  gtNumber (suitability c ty) (suitabilityThreshold * 0.7)
               then maskSet newMask idx 1
               else newMask))"

definition caIteration :: "string \<Rightarrow> grid \<Rightarrow> int list \<Rightarrow> int list" where
  "caIteration ty g m = fold (caStep ty g m) [0..<length (cells g)] m"

definition iterations :: nat where
  "iterations = 2"

definition createNaturalDistributionMask ::
  "(nat \<Rightarrow> real) \<Rightarrow> objectData \<Rightarrow> mask \<times> nat \<Rightarrow> grid \<Rightarrow> mask \<times> nat" where
  "createNaturalDistributionMask rnd od st g =
     (let r = fold (naturalSeedStep rnd (o_type od) g) [0..<length (cells g)]
                (m_cells (fst st), snd st)
      in ((fst st)\<lparr>m_cells := (caIteration (o_type od) g ^^ iterations) (fst r)\<rparr>, snd r))"

text \<open>
  The clustered strategy. \<^verbatim>\<open>Array.prototype.sort\<close> is stable, as \<open>sort_key\<close> is; the
  comparator orders by descending score.
\<close>

definition maxClusters :: nat where
  "maxClusters = 5"

definition clusterCellStep ::
  "(nat \<Rightarrow> real) \<Rightarrow> string \<Rightarrow> grid \<Rightarrow> cell \<Rightarrow> real \<Rightarrow> cell \<Rightarrow> int list \<times> nat \<Rightarrow> int list \<times> nat"
where
  "clusterCellStep rnd ty g center clusterRadius c st =
     (let m = fst st; n = snd st;
          distance = sqrt ((centerX c - centerX center)\<^sup>2 + (centerY c - centerY center)\<^sup>2);
          distanceFactor = 1.0 - (distance / clusterRadius);
          suitability = suitOr0 c ty;
          probability = distanceFactor * suitability
      in (if rnd n < probability then maskSet m (maskIndex g c) 1 else m, Suc n))"

definition clusterStep ::
  "(nat \<Rightarrow> real) \<Rightarrow> string \<Rightarrow> grid \<Rightarrow> real \<Rightarrow> cell \<Rightarrow> int list \<times> nat \<Rightarrow> int list \<times> nat"
where
  "clusterStep rnd ty g clusterRadius center st =
     fold (clusterCellStep rnd ty g center clusterRadius)
       (getCellsInRadius g (centerX center) (centerY center) clusterRadius) st"

definition createClusteredDistributionMask ::
  "(nat \<Rightarrow> real) \<Rightarrow> objectData \<Rightarrow> mask \<times> nat \<Rightarrow> grid \<Rightarrow> mask \<times> nat" where
  "createClusteredDistributionMask rnd od st g =
     (let ty = o_type od;
          clusterCenters = filter (\<lambda>c. suitOr0 c ty > 0.6) (cells g);
          sorted = sort_key (\<lambda>c. - suitOr0 c ty) clusterCenters;
          finalCenters = take maxClusters sorted;
          clusterRadius = g_width g * 0.1;
          r = fold (clusterStep rnd ty g clusterRadius) finalCenters (m_cells (fst st), snd st)
      in ((fst st)\<lparr>m_cells := fst r\<rparr>, snd r))"

text \<open>
  The water strategy. It looks the definition up in the global table:
  \<^verbatim>\<open>objectDef?.subtypes[objectData.subType]?.customRules || {}\<close>. The strategy is called
  by \<^verbatim>\<open>generatePlacementMasks\<close> only, after \<^verbatim>\<open>calculateObjectSuitability\<close> has returned for
  the same request, hence with a type that has a definition. For an inherited key the
  same expression would throw as it does there; that outcome is \<open>processObject\<close>'s, and the
  rule set below is the empty one for every type without a definition.
\<close>

definition waterRules :: "objectData \<Rightarrow> customRules" where
  "waterRules od =
     (case objectDefinitions (o_type od) of
        Definition d \<Rightarrow> subTypeRulesOf d (subType od)
      | _ \<Rightarrow> emptyRules)"

definition waterSuitability :: "objectData \<Rightarrow> grid \<Rightarrow> cell \<Rightarrow> real" where
  "waterSuitability od g c =
     (let suitability = suitOr0 c (o_type od);
          isWater = p_height (props c) < 0.1;
          isDeepWater = p_height (props c) < 0.05;
          isWaterEdge = (\<not> isWater \<and> list_ex (\<lambda>n. p_height (props n) < 0.1) (getNeighbors g c));
          subTypeRules = waterRules od
      in if requireDeepWater subTypeRules \<and> isDeepWater then suitability
         else if requireWaterEdge subTypeRules \<and> isWaterEdge then suitability
         else if \<not> requireDeepWater subTypeRules \<and> \<not> requireWaterEdge subTypeRules \<and> isWater
           then suitability
         else 0)"

definition waterStep ::
  "(nat \<Rightarrow> real) \<Rightarrow> objectData \<Rightarrow> grid \<Rightarrow> nat \<Rightarrow> int list \<times> nat \<Rightarrow> int list \<times> nat" where
  "waterStep rnd od g i st =
     (let m = fst st; n = snd st
      in (if rnd n < waterSuitability od g (cells g ! i) then m[i := 1] else m, Suc n))"

definition createWaterDistributionMask ::
  "(nat \<Rightarrow> real) \<Rightarrow> objectData \<Rightarrow> mask \<times> nat \<Rightarrow> grid \<Rightarrow> mask \<times> nat" where
  "createWaterDistributionMask rnd od st g =
     (let r = fold (waterStep rnd od g) [0..<length (cells g)] (m_cells (fst st), snd st)
      in ((fst st)\<lparr>m_cells := fst r\<rparr>, snd r))"

text \<open>
  \<^verbatim>\<open>objectData.distribution || 'random'\<close>: an absent or empty name is falsy. The
  \<^verbatim>\<open>switch\<close> sends every name but the three below to the random strategy.
\<close>

definition distributionOf :: "objectData \<Rightarrow> string" where
  "distributionOf od =
     (case distribution od of
        None \<Rightarrow> ''random''
      | Some d \<Rightarrow> if d = [] then ''random'' else d)"

definition createPlacementMask ::
  "(nat \<Rightarrow> real) \<Rightarrow> objectData \<Rightarrow> mask \<times> nat \<Rightarrow> grid \<Rightarrow> mask \<times> nat" where
  "createPlacementMask rnd od st g =
     (let distribution = distributionOf od in
      if distribution = ''natural'' then createNaturalDistributionMask rnd od st g
      else if distribution = ''clustered'' then createClusteredDistributionMask rnd od st g
      else if distribution = ''water'' then createWaterDistributionMask rnd od st g
      else createRandomDistributionMask rnd od st g)"

subsection \<open>placementMaskGenerator.js: generatePlacementMasks\<close>

datatype error = TypeError

text \<open>
  The comparator of the sort: \<^verbatim>\<open>objDefA.priority - objDefB.priority\<close>, where a type without
  any entry gets \<^verbatim>\<open>{ priority: 999 }\<close>. An inherited member is truthy and has no
  \<^verbatim>\<open>priority\<close>: the read is \<^verbatim>\<open>undefined\<close> (\<open>None\<close>), the difference is \<open>NaN\<close>, and the sort takes
  a comparator result of \<open>NaN\<close> for \<open>0\<close>.
\<close>

definition priorityOf :: "objectData \<Rightarrow> int option" where
  "priorityOf od =
     (case objectDefinitions (o_type od) of
        Undefined \<Rightarrow> Some 999
      | Definition d \<Rightarrow> Some (priority d)
      | Inherited \<Rightarrow> None)"

definition comparePriority :: "objectData \<Rightarrow> objectData \<Rightarrow> int" where
  "comparePriority a b =
     (case (priorityOf a, priorityOf b) of
        (Some pa, Some pb) \<Rightarrow> pa - pb
      | _ \<Rightarrow> 0)"

text \<open>
  \<^verbatim>\<open>[...objectsData.objects].sort(comparator)\<close>. The sort is stable; for a consistent
  comparator, that is when no type is an inherited key, every stable sort returns the
  list below. With an inherited key among the types the order is the engine's own; the
  outcome of the run is the same for every order (lemma \<open>inherited_type_throws\<close>).
\<close>

fun insertObject :: "objectData \<Rightarrow> objectData list \<Rightarrow> objectData list" where
  "insertObject x [] = [x]"
| "insertObject x (y # ys) =
     (if comparePriority x y \<le> 0 then x # y # ys else y # insertObject x ys)"

definition sortObjects :: "objectData list \<Rightarrow> objectData list" where
  "sortObjects objects = foldr insertObject objects []"

definition emptyMask :: "grid \<Rightarrow> mask" where
  "emptyMask g =
     \<lparr> m_grid = gridSize g, m_width = g_width g, m_height = g_height g,
       m_cells = replicate (length (cells g)) 0 \<rparr>"

text \<open>
  The state of the loop over the sorted requests: the dictionary \<^verbatim>\<open>placementMasks\<close>, the
  grid (whose cells' \<^verbatim>\<open>suitability\<close> the engine writes) and the number of draws made.
  \<open>placeObject\<close> is the body of the loop for a request whose type has a definition.
\<close>

definition placeObject ::
  "(nat \<Rightarrow> real) \<Rightarrow> objectData \<Rightarrow> objectDef \<Rightarrow> (string \<Rightarrow> mask option) \<times> grid \<times> nat
     \<Rightarrow> (string \<Rightarrow> mask option) \<times> grid \<times> nat" where
  "placeObject rnd od d st =
     (let placementMasks = fst st; g = fst (snd st); n = snd (snd st);
          g' = calculateObjectSuitability od d g;
          r = createPlacementMask rnd od (emptyMask g, n) g'
      in (placementMasks(o_type od \<mapsto> fst r), g', snd r))"

text \<open>
  One iteration. A request whose type has no entry at all is skipped by \<^verbatim>\<open>continue\<close>. For
  an inherited key the test \<^verbatim>\<open>!objectDef\<close> is false, the iteration goes on, and
  \<^verbatim>\<open>calculateObjectSuitability\<close> throws a \<^verbatim>\<open>TypeError\<close> at \<^verbatim>\<open>objectDef.subtypes[...]\<close>, since
  \<^verbatim>\<open>objectDef.subtypes\<close> is \<^verbatim>\<open>undefined\<close>.
\<close>

definition processObject ::
  "(nat \<Rightarrow> real) \<Rightarrow> objectData \<Rightarrow> (string \<Rightarrow> mask option) \<times> grid \<times> nat
     \<Rightarrow> error + (string \<Rightarrow> mask option) \<times> grid \<times> nat" where
  "processObject rnd od st =
     (case objectDefinitions (o_type od) of
        Undefined \<Rightarrow> Inr st
      | Definition d \<Rightarrow> Inr (placeObject rnd od d st)
      | Inherited \<Rightarrow> Inl TypeError)"

text \<open>The loop: the exception of an iteration ends it.\<close>

fun processObjects ::
  "(nat \<Rightarrow> real) \<Rightarrow> objectData list \<Rightarrow> (string \<Rightarrow> mask option) \<times> grid \<times> nat
     \<Rightarrow> error + (string \<Rightarrow> mask option) \<times> grid \<times> nat" where
  "processObjects rnd [] st = Inr st"
| "processObjects rnd (od # ods) st =
     (case processObject rnd od st of
        Inl e \<Rightarrow> Inl e
      | Inr st' \<Rightarrow> processObjects rnd ods st')"

text \<open>
  \<^verbatim>\<open>generatePlacementMasks\<close>: the dictionary of masks, or the exception, with which the
  promise is rejected and every mask built so far is lost.
\<close>

definition generatePlacementMasks ::
  "(nat \<Rightarrow> real) \<Rightarrow> objectData list \<Rightarrow> grid \<Rightarrow> error + (string \<Rightarrow> mask option)" where
  "generatePlacementMasks rnd objects g =
     (let sortedObjects = sortObjects objects
      in case processObjects rnd sortedObjects (Map.empty, g, 0) of
           Inl e \<Rightarrow> Inl e
         | Inr st \<Rightarrow> Inr (fst st))"

subsection \<open>Invariants of the grid, of the masks and of a run\<close>

text \<open>
  What \<^verbatim>\<open>createGrid\<close> establishes and no later stage changes: there are
  \<open>gridSize \<times> gridSize\<close> cells, and the cell at position \<open>i\<close> of the array carries the
  coordinates \<open>(i mod gridSize, i div gridSize)\<close>.
\<close>

definition rowMajor :: "grid \<Rightarrow> bool" where
  "rowMajor g =
     (length (cells g) = gridSize g * gridSize g \<and>
      list_all (\<lambda>i. gridX (cells g ! i) = int (i mod gridSize g) \<and>
                     gridY (cells g ! i) = int (i div gridSize g))
        [0..<length (cells g)])"

text \<open>A map and cells of positive dimensions.\<close>

definition positiveGrid :: "grid \<Rightarrow> bool" where
  "positiveGrid g =
     (0 < g_width g \<and> 0 < g_height g \<and> 0 < cellWidth g \<and> 0 < cellHeight g)"

text \<open>
  The invariant of the natural strategy: every cell that the mask marks has a stored
  score above \<open>0.7 \<cdot> 0.3\<close>.
\<close>

definition bornOk :: "string \<Rightarrow> grid \<Rightarrow> int list \<Rightarrow> bool" where
  "bornOk ty g m = (\<forall>i. i < length (cells g) \<and> i < length m \<and> m ! i = 1 \<longrightarrow>
      (\<exists>s. suitability (cells g ! i) ty = Some s \<and> s > 21/100))"

text \<open>A mask of \<open>N\<close> cells, each \<open>0\<close> or \<open>1\<close>.\<close>

definition binaryMask :: "nat \<Rightarrow> int list \<Rightarrow> bool" where
  "binaryMask N m = (length m = N \<and> list_all (\<lambda>v. v = 0 \<or> v = 1) m)"

text \<open>The state of the loop over the requests: every mask stored so far is complete.\<close>

definition masksComplete :: "nat \<Rightarrow> nat \<Rightarrow> (string \<Rightarrow> mask option) \<times> grid \<times> nat \<Rightarrow> bool" where
  "masksComplete N gs st =
     (length (cells (fst (snd st))) = N \<and> gridSize (fst (snd st)) = gs \<and>
      (\<forall>t mk. fst st t = Some mk \<longrightarrow> binaryMask N (m_cells mk) \<and> m_grid mk = gs))"

text \<open>
  How a computation \<open>f\<close> with a state depends on the draws: it never decreases the
  count \<open>cnt\<close> of draws made, and its result is the same for any other sequence that
  agrees with \<open>rnd\<close> on the draws it makes, those from \<open>cnt s\<close> up to \<open>cnt (f rnd s)\<close>.
\<close>

definition drawsLocal :: "((nat \<Rightarrow> real) \<Rightarrow> 's \<Rightarrow> 's) \<Rightarrow> ('s \<Rightarrow> nat) \<Rightarrow> bool" where
  "drawsLocal f cnt =
     (\<forall>rnd rnd' s. cnt s \<le> cnt (f rnd s) \<and>
        ((\<forall>k. cnt s \<le> k \<and> k < cnt (f rnd s) \<longrightarrow> rnd' k = rnd k) \<longrightarrow> f rnd' s = f rnd s))"

text \<open>
  The number of calls of \<^verbatim>\<open>Math.random()\<close> made when the loop over the requests ends or
  throws, and the number that a run of \<^verbatim>\<open>generatePlacementMasks\<close> makes.
\<close>

fun drawsBy ::
  "(nat \<Rightarrow> real) \<Rightarrow> objectData list \<Rightarrow> (string \<Rightarrow> mask option) \<times> grid \<times> nat \<Rightarrow> nat" where
  "drawsBy rnd [] st = snd (snd st)"
| "drawsBy rnd (od # ods) st =
     (case processObject rnd od st of
        Inl e \<Rightarrow> snd (snd st)
      | Inr st' \<Rightarrow> drawsBy rnd ods st')"

definition drawsMade :: "(nat \<Rightarrow> real) \<Rightarrow> objectData list \<Rightarrow> grid \<Rightarrow> nat" where
  "drawsMade rnd objects g = drawsBy rnd (sortObjects objects) (Map.empty, g, 0)"

subsection \<open>Example inputs\<close>

text \<open>
  A height source with one raised corner, and the \<open>2 \<times> 2\<close> grid over a \<open>2 \<times> 2\<close> map
  analysed from it: the cell at \<open>(0, 0)\<close> has mean height \<open>1\<close>, the other three \<open>0\<close>.
\<close>

definition peakMap :: "real \<Rightarrow> real \<Rightarrow> real" where
  "peakMap x y = (if x < 1 \<and> y < 1 then 1 else 0)"

definition peakGrid :: grid where
  "peakGrid = calculateHeightAndSlope peakMap (createGrid 2 2 2)"

text \<open>
  A level height source, the \<open>2 \<times> 2\<close> grid analysed from it, and a request for rocks on
  flat land (what the prompt parser builds from "rocks on the flat plain"), scored on
  that grid. The two sequences of draws are constant.
\<close>

definition levelMap :: "real \<Rightarrow> real \<Rightarrow> real \<Rightarrow> real" where
  "levelMap v x y = v"

definition flatGrid :: grid where
  "flatGrid = calculateHeightAndSlope (levelMap (1 / 2)) (createGrid 2 2 2)"

definition rockRequest :: objectData where
  "rockRequest =
     \<lparr> o_type = ''rock'', subType = ''rock'', density = 1 / 2,
       location = Some \<lparr> l_x = 1 / 2, l_y = 1 / 2, radius = 0, terrain = Some ''flatlands'' \<rparr>,
       distribution = Some ''random'' \<rparr>"

definition scoredGrid :: grid where
  "scoredGrid = calculateObjectSuitability rockRequest rockDef flatGrid"

definition lowDraws :: "nat \<Rightarrow> real" where
  "lowDraws k = 1 / 4"

definition highDraws :: "nat \<Rightarrow> real" where
  "highDraws k = 7 / 8"

text \<open>
  A request for oaks in the forest that names no distribution, and the one the prompt
  parser builds from "dense trees in the forest".
\<close>

definition treeRequest :: objectData where
  "treeRequest =
     \<lparr> o_type = ''tree'', subType = ''oak'', density = 1 / 2,
       location = Some \<lparr> l_x = 1 / 2, l_y = 1 / 2, radius = 0, terrain = Some ''forest'' \<rparr>,
       distribution = None \<rparr>"

definition forestRequest :: objectData where
  "forestRequest = treeRequest\<lparr>density := 4 / 5, distribution := Some ''natural''\<rparr>"

text \<open>
  Scenario C: a height source with one deep-water corner, the grid analysed from it, and
  a request for boats (subtype flag \<^verbatim>\<open>requireDeepWater\<close>) using the water distribution,
  scored on that grid.
\<close>

definition deepMap :: "real \<Rightarrow> real \<Rightarrow> real" where
  "deepMap x y = (if x < 1 \<and> y < 1 then 3 / 100 else 1 / 2)"

definition deepGrid :: grid where
  "deepGrid = calculateHeightAndSlope deepMap (createGrid 2 2 2)"

definition boatRequest :: objectData where
  "boatRequest =
     \<lparr> o_type = ''waterObject'', subType = ''boat'', density = 1 / 2,
       location = None, distribution = Some ''water'' \<rparr>"

definition boatGrid :: grid where
  "boatGrid = calculateObjectSuitability boatRequest waterObjectDef deepGrid"

text \<open>
  The request that the prompt parser's loop over the rule table builds for a prompt
  that mentions "vegetation": the subtype is \<^verbatim>\<open>default\<close>, which no type declares.
\<close>

definition vegetationRequest :: objectData where
  "vegetationRequest =
     \<lparr> o_type = ''vegetation'', subType = ''default'', density = 1 / 2,
       location = Some \<lparr> l_x = 1 / 2, l_y = 1 / 2, radius = 1 / 2, terrain = None \<rparr>,
       distribution = Some ''natural'' \<rparr>"

text \<open>
  The request without a distribution, scored on the level grid, and a sequence of
  draws whose first value is low and whose other values are high.
\<close>

definition treeGrid :: grid where
  "treeGrid = calculateObjectSuitability treeRequest treeDef flatGrid"

definition firstLow :: "nat \<Rightarrow> real" where
  "firstLow k = (if k = 0 then 1 / 4 else 7 / 8)"

text \<open>
  A height source that returns \<open>1.5\<close>, outside \<open>[0, 1]\<close>, everywhere, and the grid
  analysed from it.
\<close>

definition tallGrid :: grid where
  "tallGrid = calculateHeightAndSlope (levelMap (3 / 2)) (createGrid 2 2 2)"

text \<open>
  A request for water objects of the subtype \<^verbatim>\<open>default\<close>, which \<^verbatim>\<open>waterObject\<close> does not
  declare, anchored at the centre of the first cell of a \<open>2 \<times> 2\<close> grid and using the water
  distribution; and a request whose type, \<^verbatim>\<open>toString\<close>, is a key of \<^verbatim>\<open>Object.prototype\<close>.
\<close>

definition raftRequest :: objectData where
  "raftRequest =
     \<lparr> o_type = ''waterObject'', subType = ''default'', density = 1 / 2,
       location = Some \<lparr> l_x = 1 / 4, l_y = 1 / 4, radius = 1 / 2, terrain = None \<rparr>,
       distribution = Some ''water'' \<rparr>"

definition toStringRequest :: objectData where
  "toStringRequest =
     \<lparr> o_type = ''toString'', subType = ''default'', density = 1 / 2,
       location = None, distribution = Some ''random'' \<rparr>"

text \<open>Draws that agree with \<open>lowDraws\<close> on the first four values only.\<close>

definition lowThenHigh :: "nat \<Rightarrow> real" where
  "lowThenHigh k = (if k < 4 then 1 / 4 else 7 / 8)"

section \<open>Properties\<close>

subsection \<open>The grid and the analyzer\<close>

lemma cells_grid2:
  "cells (createGrid 2 2 2) =
     [mkCell 1 1 0 0, mkCell 1 1 (Suc 0) 0, mkCell 1 1 0 (Suc 0), mkCell 1 1 (Suc 0) (Suc 0)]"
  by (simp add: createGrid_def upt_rec)

lemma gridSize_createGrid [simp]: "gridSize (createGrid w h n) = n"
  by (simp add: createGrid_def Let_def)

lemma analyzeCell_length [simp]: "length (cells (analyzeCell hm k g)) = length (cells g)"
  by (simp add: analyzeCell_def)

lemma analyzeCell_gridSize [simp]: "gridSize (analyzeCell hm k g) = gridSize g"
  by (simp add: analyzeCell_def)

lemma analyzeCell_other: "j \<noteq> k \<Longrightarrow> cells (analyzeCell hm k g) ! j = cells g ! j"
  by (simp add: analyzeCell_def)

lemma analyzeCell_self:
  "k < length (cells g) \<Longrightarrow>
   cells (analyzeCell hm k g) ! k =
     (cells g ! k)\<lparr>properties := Some (analyzedProperties hm (cells g ! k) g)\<rparr>"
  by (simp add: analyzeCell_def)

lemma fold_analyze_length [simp]:
  "length (cells (fold (analyzeCell hm) ks g)) = length (cells g)"
  by (induction ks arbitrary: g) simp_all

lemma fold_analyze_gridSize [simp]: "gridSize (fold (analyzeCell hm) ks g) = gridSize g"
  by (induction ks arbitrary: g) simp_all

lemma fold_analyze_other:
  "j \<notin> set ks \<Longrightarrow> cells (fold (analyzeCell hm) ks g) ! j = cells g ! j"
  by (induction ks arbitrary: g) (simp_all add: analyzeCell_other)

text \<open>What the loop leaves in a cell is what the iteration of that cell wrote.\<close>

lemma fold_analyze_nth:
  "j < n \<Longrightarrow> n \<le> length (cells g) \<Longrightarrow>
   cells (fold (analyzeCell hm) [0..<n] g) ! j =
   cells (analyzeCell hm j (fold (analyzeCell hm) [0..<j] g)) ! j"
proof (induction n)
  case 0
  then show ?case by simp
next
  case (Suc n)
  show ?case
  proof (cases "j = n")
    case True
    then show ?thesis by simp
  next
    case False
    with Suc.prems have "j < n" "n \<le> length (cells g)" by simp_all
    with Suc.IH have "cells (fold (analyzeCell hm) [0..<n] g) ! j =
      cells (analyzeCell hm j (fold (analyzeCell hm) [0..<j] g)) ! j" by simp
    with False show ?thesis by (simp add: analyzeCell_other)
  qed
qed

lemma analyzed_cell:
  assumes "j < length (cells g)"
  shows "cells (calculateHeightAndSlope hm g) ! j =
    (cells g ! j)\<lparr>properties := Some (analyzedProperties hm (cells g ! j)
       (fold (analyzeCell hm) [0..<j] g))\<rparr>"
proof -
  have "cells (calculateHeightAndSlope hm g) ! j =
        cells (analyzeCell hm j (fold (analyzeCell hm) [0..<j] g)) ! j"
    unfolding calculateHeightAndSlope_def using assms by (intro fold_analyze_nth) simp_all
  also have "\<dots> = (cells (fold (analyzeCell hm) [0..<j] g) ! j)\<lparr>properties :=
      Some (analyzedProperties hm (cells (fold (analyzeCell hm) [0..<j] g) ! j)
       (fold (analyzeCell hm) [0..<j] g))\<rparr>"
    using assms by (simp add: analyzeCell_self)
  also have "cells (fold (analyzeCell hm) [0..<j] g) ! j = cells g ! j"
    by (simp add: fold_analyze_other)
  finally show ?thesis .
qed

lemma length_analysis [simp]:
  "length (cells (calculateHeightAndSlope hm g)) = length (cells g)"
  by (simp add: calculateHeightAndSlope_def)

lemma gridSize_analysis [simp]: "gridSize (calculateHeightAndSlope hm g) = gridSize g"
  by (simp add: calculateHeightAndSlope_def)

lemma height_analyzed:
  "p_height (analyzedProperties hm c g) =
     foldl (+) 0 (cellSamples hm c) / real (length (cellSamples hm c))"
  by (simp add: analyzedProperties_def Let_def)

lemma isPeak_analyzed:
  "isPeak (p_terrainFeatures (analyzedProperties hm c g)) =
     list_all (neighborLower (foldl (+) 0 (cellSamples hm c) / real (length (cellSamples hm c))))
       (getNeighbors g c)"
  by (simp add: analyzedProperties_def classifyTerrainFeatures_def Let_def)

lemma slopes_analyzed:
  "p_slopes (analyzedProperties hm c g) = calculateDirectionalSlopes c g hm"
  by (simp add: analyzedProperties_def Let_def)

text \<open>Every direction name contains one of the four cardinal names.\<close>

lemma slopeDistance_width: "slopeDistance d c = c_width c"
  by (cases d) (simp_all add: slopeDistance_def)

lemma foldl_add_replicate: "foldl (+) a (replicate n v) = a + real n * (v::real)"
  by (induction n arbitrary: a) (simp_all add: algebra_simps)

lemma upt_5: "[0..<5] = [0, 1, 2, 3, 4]"
  by (simp add: upt_rec)

subsection \<open>The analysed example grid\<close>

lemma samples_peak:
  "cellSamples peakMap (mkCell 1 1 0 0) = replicate 25 1"
  "cellSamples peakMap (mkCell 1 1 (Suc 0) 0) = replicate 25 0"
  "cellSamples peakMap (mkCell 1 1 0 (Suc 0)) = replicate 25 0"
  "cellSamples peakMap (mkCell 1 1 (Suc 0) (Suc 0)) = replicate 25 0"
  by (simp_all add: cellSamples_def mkCell_def sampleCount_def upt_5 peakMap_def eval_nat_numeral)

lemma peakGrid_cells:
  "cells peakGrid ! 0 = (mkCell 1 1 0 0)\<lparr>properties :=
     Some (analyzedProperties peakMap (mkCell 1 1 0 0) (createGrid 2 2 2))\<rparr>"
  "cells peakGrid ! Suc 0 = (mkCell 1 1 (Suc 0) 0)\<lparr>properties :=
     Some (analyzedProperties peakMap (mkCell 1 1 (Suc 0) 0)
       (fold (analyzeCell peakMap) [0..<Suc 0] (createGrid 2 2 2)))\<rparr>"
  "cells peakGrid ! 2 = (mkCell 1 1 0 (Suc 0))\<lparr>properties :=
     Some (analyzedProperties peakMap (mkCell 1 1 0 (Suc 0))
       (fold (analyzeCell peakMap) [0..<2] (createGrid 2 2 2)))\<rparr>"
  "cells peakGrid ! 3 = (mkCell 1 1 (Suc 0) (Suc 0))\<lparr>properties :=
     Some (analyzedProperties peakMap (mkCell 1 1 (Suc 0) (Suc 0))
       (fold (analyzeCell peakMap) [0..<3] (createGrid 2 2 2)))\<rparr>"
  unfolding peakGrid_def
  using analyzed_cell[of 0 "createGrid 2 2 2" peakMap]
    analyzed_cell[of 1 "createGrid 2 2 2" peakMap]
    analyzed_cell[of 2 "createGrid 2 2 2" peakMap]
    analyzed_cell[of 3 "createGrid 2 2 2" peakMap]
  by (simp_all add: cells_grid2)

lemma peakGrid_size: "gridSize peakGrid = 2" "length (cells peakGrid) = 4"
  by (simp_all add: peakGrid_def cells_grid2)

lemma peakGrid_heights:
  "p_height (props (cells peakGrid ! 0)) = 1"
  "p_height (props (cells peakGrid ! Suc 0)) = 0"
  "p_height (props (cells peakGrid ! 2)) = 0"
  "p_height (props (cells peakGrid ! 3)) = 0"
  by (simp_all add: peakGrid_cells props_def height_analyzed samples_peak foldl_add_replicate)

lemma peakGrid_coords0: "gridX (cells peakGrid ! 0) = 0" "gridY (cells peakGrid ! 0) = 0"
  by (simp_all add: peakGrid_cells mkCell_def)

lemma peakGrid_neighbors0:
  "getNeighbors peakGrid (cells peakGrid ! 0) =
     [cells peakGrid ! Suc 0, cells peakGrid ! 2, cells peakGrid ! 3]"
  by (simp add: getNeighbors_def neighborOffsets_def getCellByIndices_def
      peakGrid_size peakGrid_coords0)

lemma grid2_neighbors0:
  "getNeighbors (createGrid 2 2 2) (mkCell 1 1 0 0) =
     [mkCell 1 1 (Suc 0) 0, mkCell 1 1 0 (Suc 0), mkCell 1 1 (Suc 0) (Suc 0)]"
  by (simp add: getNeighbors_def neighborOffsets_def getCellByIndices_def cells_grid2 mkCell_def)

text \<open>
  C4. The claim: classification runs as a second pass, so that the stored \<open>isPeak\<close> of a
  cell is true exactly when its mean height is strictly greater than that of every
  in-bounds Moore neighbour. The source classifies each cell inside the one loop that
  computes the heights, when the neighbours to the east and south are not yet populated.
  On the example grid the cell \<open>(0, 0)\<close> has three neighbours, each of them strictly lower
  in the finished grid, and its stored \<open>isPeak\<close> is false.
\<close>

theorem isPeak_single_pass_misses_peak:
  "length (getNeighbors peakGrid (cells peakGrid ! 0)) = 3 \<and>
   list_all (\<lambda>nb. p_height (props nb) < p_height (props (cells peakGrid ! 0)))
     (getNeighbors peakGrid (cells peakGrid ! 0)) \<and>
   isPeak (p_terrainFeatures (props (cells peakGrid ! 0))) = False"
proof -
  have "isPeak (p_terrainFeatures (props (cells peakGrid ! 0))) = False"
    by (simp add: peakGrid_cells(1) props_def isPeak_analyzed grid2_neighbors0 neighborLower_def)
       (simp add: mkCell_def)
  then show ?thesis
    by (simp add: peakGrid_neighbors0 peakGrid_heights)
qed

text \<open>
  C5. The claim: a directional slope is the height difference divided by the cell width
  for the four cardinal directions and by the cell width times \<open>\<surd>2\<close> for the four
  diagonals. The source chooses the divisor by testing whether the direction's name
  contains \<^verbatim>\<open>north\<close>, \<^verbatim>\<open>south\<close>, \<^verbatim>\<open>east\<close> or \<^verbatim>\<open>west\<close>, which every one of the eight names
  does. On the example grid the stored south-east slope of the cell \<open>(0, 0)\<close> is
  \<open>(0 - 1) / 1 = -1\<close>, not \<open>(0 - 1) / (1 \<cdot> \<surd>2)\<close>.
\<close>

theorem diagonal_slope_divides_by_cell_width:
  "p_slopes (props (cells peakGrid ! 0)) Southeast = -1 \<and>
   (peakMap (centerX (cells peakGrid ! 3)) (centerY (cells peakGrid ! 3)) -
    peakMap (centerX (cells peakGrid ! 0)) (centerY (cells peakGrid ! 0))) /
     (c_width (cells peakGrid ! 0) * sqrt 2) \<noteq> -1"
proof -
  have "calculateDirectionalSlopes (mkCell 1 1 0 0) (createGrid 2 2 2) peakMap Southeast = -1"
    by (simp add: calculateDirectionalSlopes_def directions_def slopeStep_def
        slopeDistance_width getCellByIndices_def cells_grid2 mkCell_def peakMap_def)
  moreover have "sqrt 2 \<noteq> 1" by simp
  ultimately show ?thesis
    by (simp add: peakGrid_cells props_def slopes_analyzed mkCell_def peakMap_def)
qed

subsection \<open>What createGrid builds\<close>

lemma nth_concat_rows:
  assumes "i < m * n"
  shows "concat (map (\<lambda>y. map (f y) [0..<n]) [0..<m]) ! i = f (i div n) (i mod n)"
  using assms
proof (induction m)
  case 0
  then show ?case by simp
next
  case (Suc m)
  have len: "length (concat (map (\<lambda>y. map (f y) [0..<n]) [0..<m])) = m * n"
    by (induction m) simp_all
  show ?case
  proof (cases "i < m * n")
    case True
    with Suc.IH show ?thesis by (simp add: nth_append len)
  next
    case False
    then have ge: "m * n \<le> i" by simp
    from Suc.prems ge have lt: "i - m * n < n" by simp
    define r where "r = i - m * n"
    from ge have i: "i = m * n + r" by (simp add: r_def)
    from lt have rn: "r < n" by (simp add: r_def)
    then have d: "i div n = m" and r: "i mod n = r"
      by (simp_all add: i)
    from False rn show ?thesis by (simp add: nth_append len d r) (simp add: i)
  qed
qed

lemma length_concat_rows: "length (concat (map (\<lambda>y. map (f y) [0..<n]) [0..<m])) = m * n"
  by (induction m) simp_all

lemma createGrid_nth:
  assumes "i < n * n"
  shows "cells (createGrid w h n) ! i = mkCell (w / real n) (h / real n) (i mod n) (i div n)"
  using nth_concat_rows[OF assms, of "\<lambda>y x. mkCell (w / real n) (h / real n) x y"]
  by (simp add: createGrid_def Let_def)

lemma rowMajor_createGrid: "rowMajor (createGrid w h n)"
proof -
  have len: "length (cells (createGrid w h n)) = n * n"
    by (simp add: createGrid_def Let_def length_concat_rows)
  show ?thesis
    unfolding rowMajor_def
    by (simp add: len list_all_iff createGrid_nth mkCell_def)
qed

subsection \<open>Cells and their mask index\<close>

lemma rowMajor_index:
  assumes "rowMajor g" "i < length (cells g)"
  shows "maskIndex g (cells g ! i) = int i"
proof -
  from assms have "gridX (cells g ! i) = int (i mod gridSize g)"
    "gridY (cells g ! i) = int (i div gridSize g)"
    by (simp_all add: rowMajor_def list_all_iff)
  then have "maskIndex g (cells g ! i) = int (i div gridSize g * gridSize g + i mod gridSize g)"
    by (simp only: maskIndex_def of_nat_add of_nat_mult)
  also have "i div gridSize g * gridSize g + i mod gridSize g = i" by simp
  finally show ?thesis .
qed

lemma getCellByIndices_nth:
  assumes "getCellByIndices g gx gy = Some c"
  shows "\<exists>k < length (cells g). c = cells g ! k"
  using assms by (auto simp add: getCellByIndices_def Let_def split: if_splits)

lemma getNeighbors_nth:
  assumes "c \<in> set (getNeighbors g c0)"
  shows "\<exists>k < length (cells g). c = cells g ! k"
  using assms getCellByIndices_nth
  by (fastforce simp add: getNeighbors_def List.map_filter_def)

lemma getCellsInRadius_nth:
  assumes "c \<in> set (getCellsInRadius g cx cy r)"
  shows "\<exists>k < length (cells g). c = cells g ! k"
  using assms getCellByIndices_nth
  by (fastforce simp add: getCellsInRadius_def Let_def split: if_splits option.splits)

subsection \<open>The natural strategy: active cells and the birth threshold\<close>

lemma bornOk_update0:
  assumes "bornOk ty g m"
  shows "bornOk ty g (m[j := 0])"
  unfolding bornOk_def
proof (intro allI impI)
  fix i assume a: "i < length (cells g) \<and> i < length (m[j := 0]) \<and> m[j := 0] ! i = 1"
  then have "i \<noteq> j" by (cases "i = j") auto
  with a have "i < length (cells g) \<and> i < length m \<and> m ! i = 1" by simp
  with assms show "\<exists>s. suitability (cells g ! i) ty = Some s \<and> s > 21/100"
    unfolding bornOk_def by blast
qed

lemma bornOk_update1:
  assumes "bornOk ty g m" "j < length (cells g)" "suitability (cells g ! j) ty = Some s" "s > 21/100"
  shows "bornOk ty g (m[j := 1])"
  unfolding bornOk_def
proof (intro allI impI)
  fix i assume a: "i < length (cells g) \<and> i < length (m[j := 1]) \<and> m[j := 1] ! i = 1"
  show "\<exists>s. suitability (cells g ! i) ty = Some s \<and> s > 21/100"
  proof (cases "i = j")
    case True with assms show ?thesis by simp
  next
    case False
    with a have "i < length (cells g) \<and> i < length m \<and> m ! i = 1" by simp
    with assms(1) show ?thesis unfolding bornOk_def by blast
  qed
qed

lemma seed_bornOk:
  assumes "bornOk ty g (fst st)"  "i < length (cells g)"
  shows "bornOk ty g (fst (naturalSeedStep rnd ty g i st))"
proof (cases "suitOr0 (cells g ! i) ty > suitabilityThreshold \<and> rnd (snd st) < suitOr0 (cells g ! i) ty")
  case True
  then obtain s where "suitability (cells g ! i) ty = Some s" "s > 21/100"
    by (auto simp add: suitOr0_def suitabilityThreshold_def split: option.splits)
  with assms True show ?thesis
    by (simp add: naturalSeedStep_def Let_def bornOk_update1)
next
  case False
  with assms show ?thesis by (auto simp add: naturalSeedStep_def Let_def)
qed

lemma seedloop_bornOk:
  assumes "bornOk ty g (fst st)" "set js \<subseteq> {..<length (cells g)}"
  shows "bornOk ty g (fst (fold (naturalSeedStep rnd ty g) js st))"
  using assms
  by (induction js arbitrary: st) (simp_all add: seed_bornOk)

lemma caStep_bornOk:
  assumes "rowMajor g" "bornOk ty g new" "i < length (cells g)"
  shows "bornOk ty g (caStep ty g m i new)"
proof -
  have idx: "maskIndex g (cells g ! i) = int i" by (rule rowMajor_index[OF assms(1,3)])
  have born: "bornOk ty g (new[i := 1])"
    if "gtNumber (suitability (cells g ! i) ty) (suitabilityThreshold * 0.7)"
  proof -
    from that obtain s where "suitability (cells g ! i) ty = Some s" "s > 21/100"
      by (auto simp add: gtNumber_def suitabilityThreshold_def split: option.splits)
    with assms show ?thesis by (simp add: bornOk_update1)
  qed
  show ?thesis
    using assms(2) born
    by (simp add: caStep_def Let_def idx maskSet_def bornOk_update0)
qed

lemma caIteration_bornOk:
  assumes "rowMajor g" "bornOk ty g m"
  shows "bornOk ty g (caIteration ty g m)"
proof -
  have "bornOk ty g (fold (caStep ty g m) js m)" if "set js \<subseteq> {..<length (cells g)}" for js
    using that assms(2)
  proof (induction js rule: rev_induct)
    case Nil then show ?case by simp
  next
    case (snoc j js) then show ?case by (simp add: caStep_bornOk[OF assms(1)])
  qed
  moreover have "set [0..<length (cells g)] \<subseteq> {..<length (cells g)}" by auto
  ultimately show ?thesis unfolding caIteration_def by blast
qed

lemma caIterations_bornOk:
  assumes "rowMajor g" "bornOk ty g m"
  shows "bornOk ty g ((caIteration ty g ^^ k) m)"
  using assms by (induction k) (simp_all add: caIteration_bornOk)

lemma bornOk_zero: "bornOk ty g (replicate n 0)"
  by (auto simp add: bornOk_def)

lemma seedStep_length [simp]: "length (fst (naturalSeedStep rnd ty g i st)) = length (fst st)"
  by (simp add: naturalSeedStep_def Let_def)

lemma seedLoop_length [simp]: "length (fst (fold (naturalSeedStep rnd ty g) js st)) = length (fst st)"
  by (induction js arbitrary: st) simp_all

lemma caStep_length [simp]: "length (caStep ty g m i new) = length new"
  by (simp add: caStep_def Let_def maskSet_def)

lemma caIteration_length [simp]: "length (caIteration ty g m) = length m"
proof -
  have "length (fold (caStep ty g m) js new) = length new" for js new
    by (induction js arbitrary: new) simp_all
  then show ?thesis by (simp add: caIteration_def)
qed

lemma caIterations_length [simp]: "length ((caIteration ty g ^^ k) m) = length m"
  by (induction k) simp_all


subsection \<open>Stages keep the lattice\<close>

lemma analysis_map_size [simp]:
  "g_width (calculateHeightAndSlope hm g) = g_width g"
  "g_height (calculateHeightAndSlope hm g) = g_height g"
  "cellWidth (calculateHeightAndSlope hm g) = cellWidth g"
  "cellHeight (calculateHeightAndSlope hm g) = cellHeight g"
proof -
  have "g_width (fold (analyzeCell hm) ks g) = g_width g \<and>
        g_height (fold (analyzeCell hm) ks g) = g_height g \<and>
        cellWidth (fold (analyzeCell hm) ks g) = cellWidth g \<and>
        cellHeight (fold (analyzeCell hm) ks g) = cellHeight g" for ks
    by (induction ks arbitrary: g) (simp_all add: analyzeCell_def)
  then show "g_width (calculateHeightAndSlope hm g) = g_width g"
    "g_height (calculateHeightAndSlope hm g) = g_height g"
    "cellWidth (calculateHeightAndSlope hm g) = cellWidth g"
    "cellHeight (calculateHeightAndSlope hm g) = cellHeight g"
    by (simp_all add: calculateHeightAndSlope_def)
qed

lemma suitability_map_size [simp]:
  "g_width (calculateObjectSuitability od d g) = g_width g"
  "g_height (calculateObjectSuitability od d g) = g_height g"
  "cellWidth (calculateObjectSuitability od d g) = cellWidth g"
  "cellHeight (calculateObjectSuitability od d g) = cellHeight g"
  by (simp_all add: calculateObjectSuitability_def)

lemma positive_createGrid:
  assumes "0 < w" "0 < h" "0 < n"
  shows "positiveGrid (createGrid w h n)"
  using assms by (simp add: positiveGrid_def createGrid_def Let_def)

lemma positive_analysis [simp]:
  "positiveGrid (calculateHeightAndSlope hm g) = positiveGrid g"
  by (simp add: positiveGrid_def)

lemma positive_suitability [simp]:
  "positiveGrid (calculateObjectSuitability od d g) = positiveGrid g"
  by (simp add: positiveGrid_def)

lemma positive_grid2: "positiveGrid (createGrid 2 2 2)"
  by (rule positive_createGrid) simp_all

lemma analysis_coords:
  assumes "i < length (cells g)"
  shows "gridX (cells (calculateHeightAndSlope hm g) ! i) = gridX (cells g ! i)"
    and "gridY (cells (calculateHeightAndSlope hm g) ! i) = gridY (cells g ! i)"
    and "properties (cells (calculateHeightAndSlope hm g) ! i) \<noteq> None"
  by (simp_all add: analyzed_cell[OF assms])

lemma rowMajor_analysis:
  assumes "rowMajor g"
  shows "rowMajor (calculateHeightAndSlope hm g)"
  using assms by (simp add: rowMajor_def list_all_iff analysis_coords)

lemma analyzed_analysis: "analyzed (calculateHeightAndSlope hm g)"
  unfolding analyzed_def list_all_length by (simp add: analysis_coords)

lemma length_suitability [simp]:
  "length (cells (calculateObjectSuitability od d g)) = length (cells g)"
  by (simp add: calculateObjectSuitability_def)

lemma gridSize_suitability [simp]:
  "gridSize (calculateObjectSuitability od d g) = gridSize g"
  by (simp add: calculateObjectSuitability_def)

lemma suitability_cell:
  assumes "i < length (cells g)"
  shows "cells (calculateObjectSuitability od d g) ! i =
    (cells g ! i)\<lparr>suitability :=
       (suitability (cells g ! i))(o_type od := Some (suitabilityScore od d g (cells g ! i)))\<rparr>"
  using assms by (simp add: calculateObjectSuitability_def)

lemma rowMajor_suitability:
  assumes "rowMajor g"
  shows "rowMajor (calculateObjectSuitability od d g)"
  using assms by (simp add: rowMajor_def list_all_iff suitability_cell)

lemma analyzed_suitability:
  assumes "analyzed g"
  shows "analyzed (calculateObjectSuitability od d g)"
  using assms unfolding analyzed_def list_all_length by (simp add: suitability_cell)

lemma props_suitability:
  assumes "i < length (cells g)"
  shows "props (cells (calculateObjectSuitability od d g) ! i) = props (cells g ! i)"
  using assms by (simp add: suitability_cell props_def)

lemma stored_suitability:
  assumes "i < length (cells g)"
  shows "suitability (cells (calculateObjectSuitability od d g) ! i) (o_type od) =
           Some (suitabilityScore od d g (cells g ! i))"
  using assms by (simp add: suitability_cell)

subsection \<open>The level example grid\<close>

lemma samples_level: "cellSamples (levelMap v) c = replicate 25 v"
  by (simp add: cellSamples_def sampleCount_def upt_5 levelMap_def eval_nat_numeral)

lemma level_properties:
  "p_height (analyzedProperties (levelMap v) c g) = v"
  "p_slope (analyzedProperties (levelMap v) c g) = 0"
  "isFlat (p_terrainFeatures (analyzedProperties (levelMap v) c g)) = True"
  by (simp_all add: analyzedProperties_def classifyTerrainFeatures_def Let_def samples_level
      foldl_add_replicate)

lemma level_cell_props:
  assumes "i < length (cells g)"
  shows "p_height (props (cells (calculateHeightAndSlope (levelMap v) g) ! i)) = v"
    and "p_slope (props (cells (calculateHeightAndSlope (levelMap v) g) ! i)) = 0"
    and "isFlat (p_terrainFeatures (props (cells (calculateHeightAndSlope (levelMap v) g) ! i)))
           = True"
  by (simp_all add: analyzed_cell[OF assms] props_def level_properties)

lemma flatGrid_size: "gridSize flatGrid = 2" "length (cells flatGrid) = 4"
  by (simp_all add: flatGrid_def cells_grid2)

lemma flatGrid_props:
  assumes "i < 4"
  shows "p_height (props (cells flatGrid ! i)) = 1 / 2"
    and "p_slope (props (cells flatGrid ! i)) = 0"
    and "isFlat (p_terrainFeatures (props (cells flatGrid ! i))) = True"
proof -
  from assms have "i < length (cells (createGrid 2 2 2))" by (simp add: cells_grid2)
  from level_cell_props[OF this, of "1 / 2"]
  show "p_height (props (cells flatGrid ! i)) = 1 / 2"
    and "p_slope (props (cells flatGrid ! i)) = 0"
    and "isFlat (p_terrainFeatures (props (cells flatGrid ! i))) = True"
    by (simp_all add: flatGrid_def)
qed

lemma rowMajor_flatGrid: "rowMajor flatGrid"
  unfolding flatGrid_def by (intro rowMajor_analysis rowMajor_createGrid)

lemma analyzed_flatGrid: "analyzed flatGrid"
  unfolding flatGrid_def by (rule analyzed_analysis)

lemma positive_flatGrid: "positiveGrid flatGrid"
  by (simp add: flatGrid_def positive_grid2)

lemma rock_score_flat:
  assumes "i < 4"
  shows "suitabilityScore rockRequest rockDef flatGrid (cells flatGrid ! i) = 3 / 4"
  by (simp add: suitabilityScore_def Let_def rockDef_def rockRequest_def subTypeRulesOf_def
      emptyRules_def locationFactor_def cellHasTerrainFeature_def flatGrid_props[OF assms])

lemma scoredGrid_size: "gridSize scoredGrid = 2" "length (cells scoredGrid) = 4"
  by (simp_all add: scoredGrid_def flatGrid_size)

lemma rowMajor_scoredGrid: "rowMajor scoredGrid"
  unfolding scoredGrid_def by (intro rowMajor_suitability rowMajor_flatGrid)

lemma analyzed_scoredGrid: "analyzed scoredGrid"
  unfolding scoredGrid_def by (intro analyzed_suitability analyzed_flatGrid)

lemma scoredGrid_suitability:
  assumes "i < 4"
  shows "suitability (cells scoredGrid ! i) ''rock'' = Some (3 / 4)"
proof -
  from assms have "i < length (cells flatGrid)" by (simp add: flatGrid_size)
  from stored_suitability[OF this, of rockRequest rockDef] assms
  show ?thesis by (simp add: scoredGrid_def rock_score_flat) (simp add: rockRequest_def)
qed

text \<open>The Moore neighbourhoods of a \<open>2 \<times> 2\<close> lattice.\<close>

lemma neighbors_2x2:
  assumes "rowMajor g" "gridSize g = 2"
  shows "getNeighbors g (cells g ! 0) = [cells g ! Suc 0, cells g ! 2, cells g ! 3]"
    and "getNeighbors g (cells g ! Suc 0) = [cells g ! 0, cells g ! 2, cells g ! 3]"
    and "getNeighbors g (cells g ! 2) = [cells g ! 0, cells g ! Suc 0, cells g ! 3]"
    and "getNeighbors g (cells g ! 3) = [cells g ! 0, cells g ! Suc 0, cells g ! 2]"
proof -
  from assms have len: "length (cells g) = 4" by (simp add: rowMajor_def)
  from assms have xy: "gridX (cells g ! i) = int (i mod 2)" "gridY (cells g ! i) = int (i div 2)"
    if "i < 4" for i
    using that by (simp_all add: rowMajor_def list_all_iff)
  show "getNeighbors g (cells g ! 0) = [cells g ! Suc 0, cells g ! 2, cells g ! 3]"
    using xy[of 0]
    by (simp add: getNeighbors_def neighborOffsets_def getCellByIndices_def assms(2) len)
  show "getNeighbors g (cells g ! Suc 0) = [cells g ! 0, cells g ! 2, cells g ! 3]"
    using xy[of 1]
    by (simp add: getNeighbors_def neighborOffsets_def getCellByIndices_def assms(2) len)
  show "getNeighbors g (cells g ! 2) = [cells g ! 0, cells g ! Suc 0, cells g ! 3]"
    using xy[of 2]
    by (simp add: getNeighbors_def neighborOffsets_def getCellByIndices_def assms(2) len)
  show "getNeighbors g (cells g ! 3) = [cells g ! 0, cells g ! Suc 0, cells g ! 2]"
    using xy[of 3]
    by (simp add: getNeighbors_def neighborOffsets_def getCellByIndices_def assms(2) len)
qed

subsection \<open>The natural strategy on the scored example grid\<close>

lemma upt_4: "[0..<4] = [0, Suc 0, 2, 3]"
  by (simp add: upt_rec)

lemma scored_seed:
  "fold (naturalSeedStep lowDraws ''rock'' scoredGrid) [0..<4] ([0, 0, 0, 0], n) =
     ([1, 1, 1, 1], n + 4)"
  by (simp add: upt_4 naturalSeedStep_def Let_def suitOr0_def scoredGrid_suitability
      suitabilityThreshold_def lowDraws_def)

lemma scored_index:
  "maskIndex scoredGrid (cells scoredGrid ! 0) = 0"
  "maskIndex scoredGrid (cells scoredGrid ! Suc 0) = 1"
  "maskIndex scoredGrid (cells scoredGrid ! 2) = 2"
  "maskIndex scoredGrid (cells scoredGrid ! 3) = 3"
  using rowMajor_index[OF rowMajor_scoredGrid, of 0] rowMajor_index[OF rowMajor_scoredGrid, of 1]
    rowMajor_index[OF rowMajor_scoredGrid, of 2] rowMajor_index[OF rowMajor_scoredGrid, of 3]
  by (simp_all add: scoredGrid_size)

lemma scored_ca: "caIteration ''rock'' scoredGrid [1, 1, 1, 1] = [1, 1, 1, 1]"
  by (simp add: caIteration_def scoredGrid_size upt_4 caStep_def Let_def
      neighbors_2x2[OF rowMajor_scoredGrid scoredGrid_size(1)] scored_index maskIs1_def)

lemma funpow_2: "(f ^^ 2) x = f (f x)"
  by (simp add: eval_nat_numeral)

lemma emptyMask_scored: "m_cells (emptyMask scoredGrid) = [0, 0, 0, 0]"
  by (simp add: emptyMask_def scoredGrid_size eval_nat_numeral)

lemma scored_natural:
  "m_cells (fst (createNaturalDistributionMask lowDraws rockRequest (emptyMask scoredGrid, 0)
     scoredGrid)) = [1, 1, 1, 1]"
proof -
  have "o_type rockRequest = ''rock''" by (simp add: rockRequest_def)
  then show ?thesis
    by (simp add: createNaturalDistributionMask_def Let_def emptyMask_scored scoredGrid_size
      scored_seed iterations_def funpow_2 scored_ca)
qed

text \<open>
  C7. For a request using the natural distribution, on a grid whose cells carry their
  row-major coordinates and starting from the all-zero mask that \<^verbatim>\<open>generatePlacementMasks\<close>
  creates: a cell whose value in the final mask is \<open>1\<close> has a stored suitability above
  \<open>0.7 \<cdot> 0.3 = 0.21\<close>, whatever the draws; the same holds of the mask after the seeding
  loop and after each of the cellular-automaton iterations.
\<close>

theorem natural_mask_above_birth_threshold:
  assumes "rowMajor g" and "i < length (cells g)" and "k \<le> iterations"
  shows "(m_cells (fst (createNaturalDistributionMask rnd od (emptyMask g, n) g)) ! i = 1 \<longrightarrow>
           (\<exists>s. suitability (cells g ! i) (o_type od) = Some s \<and> s > 0.21)) \<and>
         ((caIteration (o_type od) g ^^ k)
             (fst (fold (naturalSeedStep rnd (o_type od) g) [0..<length (cells g)]
                    (m_cells (emptyMask g), n))) ! i = 1 \<longrightarrow>
           (\<exists>s. suitability (cells g ! i) (o_type od) = Some s \<and> s > 0.21))"
proof -
  let ?seeded = "fst (fold (naturalSeedStep rnd (o_type od) g) [0..<length (cells g)]
                  (m_cells (emptyMask g), n))"
  have seeded: "bornOk (o_type od) g ?seeded"
    by (rule seedloop_bornOk) (auto simp add: emptyMask_def bornOk_zero)
  have "(\<exists>s. suitability (cells g ! i) (o_type od) = Some s \<and> s > 0.21)"
    if "(caIteration (o_type od) g ^^ j) ?seeded ! i = 1" for j
  proof -
    have b: "bornOk (o_type od) g ((caIteration (o_type od) g ^^ j) ?seeded)"
      using seeded by (rule caIterations_bornOk[OF assms(1)])
    have "i < length ((caIteration (o_type od) g ^^ j) ?seeded)"
      using assms(2) by (simp add: emptyMask_def)
    with b assms(2) that show ?thesis unfolding bornOk_def by fastforce
  qed
  then show ?thesis
    by (simp add: createNaturalDistributionMask_def Let_def)
qed

theorem natural_mask_above_birth_threshold_witness:
  "rowMajor scoredGrid \<and> 0 < length (cells scoredGrid) \<and> 2 \<le> iterations \<and>
   m_cells (fst (createNaturalDistributionMask lowDraws rockRequest (emptyMask scoredGrid, 0)
      scoredGrid)) ! 0 = 1 \<and>
   (\<exists>s. suitability (cells scoredGrid ! 0) (o_type rockRequest) = Some s \<and> s > 0.21)"
  using natural_mask_above_birth_threshold[of scoredGrid 0 2 lowDraws rockRequest 0]
  by (simp add: rowMajor_scoredGrid scoredGrid_size iterations_def scored_natural)

subsection \<open>The suitability engine: bounds of the stored score\<close>

lemma factor_bounds:
  fixes s f B :: real
  assumes "0 \<le> s" "s \<le> B" "0 \<le> f" "f \<le> 1"
  shows "0 \<le> s * f \<and> s * f \<le> B"
proof -
  have "s * f \<le> s * 1" using assms by (intro mult_left_mono) simp_all
  with assms show ?thesis by simp
qed

lemma locationFactor_bounds:
  assumes "\<forall>l. location od = Some l \<and> (terrain l = None \<or> terrain l = Some []) \<longrightarrow> radius l \<noteq> 0"
  shows "0 \<le> locationFactor od g c \<and> locationFactor od g c \<le> 3 / 2"
proof (cases "location od")
  case None
  then show ?thesis by (simp add: locationFactor_def)
next
  case (Some l)
  show ?thesis
  proof (cases "terrain l \<noteq> None \<and> terrain l \<noteq> Some []")
    case True
    with Some show ?thesis by (simp add: locationFactor_def)
  next
    case False
    with Some assms have r: "radius l \<noteq> 0" by auto
    define dist where "dist = calculateDistance (centerX c / g_width g) (centerY c / g_height g) (l_x l) (l_y l)"
    have d0: "0 \<le> dist" by (simp add: dist_def calculateDistance_def)
    have lf: "locationFactor od g c = (if dist \<le> radius l then 1 - (0.5 * dist / radius l) else 0.2)"
      using Some False by (auto simp add: locationFactor_def Let_def dist_def)
    show ?thesis
    proof (cases "dist \<le> radius l")
      case True
      with d0 r have rp: "0 < radius l" by simp
      with d0 True have "0 \<le> dist / radius l" "dist / radius l \<le> 1" by simp_all
      with lf True show ?thesis by simp
    next
      case False
      with lf show ?thesis by simp
    qed
  qed
qed

lemma suitabilityScore_bounds:
  assumes h: "0 \<le> p_height (props c)" "p_height (props c) \<le> 1"
    and sl: "0 \<le> p_slope (props c)"
    and dens: "0 \<le> density od"
    and steep: "preferSteepSlopes (subTypeRulesOf d (subType od)) \<longrightarrow>
                  (\<exists>m. maxSlope (placementRules d) = Some m \<and> 0 < m)"
    and rad: "\<forall>l. location od = Some l \<and> (terrain l = None \<or> terrain l = Some []) \<longrightarrow> radius l \<noteq> 0"
  shows "0 \<le> suitabilityScore od d g c \<and> suitabilityScore od d g c \<le> 1.5 * density od"
proof -
  define rules where "rules = placementRules d"
  define sub where "sub = subTypeRulesOf d (subType od)"
  define hh where "hh = p_height (props c)"
  define ss where "ss = p_slope (props c)"
  define gate where "gate \<longleftrightarrow> (\<exists>m. maxSlope rules = Some m \<and> ss > m) \<or>
     hh < r_minHeight rules \<or> hh > r_maxHeight rules"
  define s1 where "s1 = locationFactor od g c"
  define s2 where "s2 = (if preferHigherElevation sub then s1 * (0.5 + hh * 0.5) else s1)"
  define s3 where "s3 = (if preferLowerElevation sub then s2 * (1.0 - hh * 0.5) else s2)"
  define s4 where "s4 = (if preferSteepSlopes sub
                      then s3 * (0.5 + (ss / the (maxSlope rules)) * 0.5) else s3)"
  define s5 where "s5 = (if requireFlatArea sub \<and> \<not> isFlat (p_terrainFeatures (props c))
                      then s4 * 0.1 else s4)"
  define s6 where "s6 = (if requireWaterAccess sub \<and> \<not> hasWaterNeighbor g c
                      then s5 * 0.1 else s5)"
  have score: "suitabilityScore od d g c = (if gate then 0 else s6 * density od)"
    unfolding gate_def s6_def s5_def s4_def s3_def s2_def s1_def rules_def sub_def hh_def ss_def
    by (cases "maxSlope (placementRules d)") (simp_all add: suitabilityScore_def Let_def)
  show ?thesis
  proof (cases gate)
    case True
    with score dens show ?thesis by simp
  next
    case False
    have b1: "0 \<le> s1 \<and> s1 \<le> 3 / 2" unfolding s1_def by (rule locationFactor_bounds[OF rad])
    have b2: "0 \<le> s2 \<and> s2 \<le> 3 / 2"
      using b1 h factor_bounds[of s1 "3 / 2" "0.5 + hh * 0.5"] by (simp add: s2_def hh_def)
    have b3: "0 \<le> s3 \<and> s3 \<le> 3 / 2"
      using b2 h factor_bounds[of s2 "3 / 2" "1.0 - hh * 0.5"] by (simp add: s3_def hh_def)
    have b4: "0 \<le> s4 \<and> s4 \<le> 3 / 2"
    proof (cases "preferSteepSlopes sub")
      case True
      with steep obtain m where m: "maxSlope rules = Some m" "0 < m"
        by (auto simp add: sub_def rules_def)
      from False m have "ss \<le> m" by (simp add: gate_def)
      with m sl have "0 \<le> ss / m" "ss / m \<le> 1" by (simp_all add: ss_def)
      with b3 factor_bounds[of s3 "3 / 2" "0.5 + (ss / m) * 0.5"] True m show ?thesis
        by (simp add: s4_def)
    next
      case False
      with b3 show ?thesis by (simp add: s4_def)
    qed
    have b5: "0 \<le> s5 \<and> s5 \<le> 3 / 2"
      using b4 factor_bounds[of s4 "3 / 2" "0.1"] by (simp add: s5_def)
    have b6: "0 \<le> s6 \<and> s6 \<le> 3 / 2"
      using b5 factor_bounds[of s5 "3 / 2" "0.1"] by (simp add: s6_def)
    from b6 dens have "0 \<le> s6 * density od" by simp
    moreover from b6 dens have "s6 * density od \<le> 3 / 2 * density od"
      by (intro mult_right_mono) simp_all
    ultimately show ?thesis using score False by simp
  qed
qed

text \<open>
  C1, as amended. The engine has no clamp. On a grid of positive dimensions, for a
  populated cell with mean height in \<open>[0, 1]\<close> and a slope that is not negative, and a
  request with a density that is not negative (an anchored location having a radius
  other than \<open>0\<close>, and the steep-slope rule being used only with a declared positive
  \<^verbatim>\<open>maxSlope\<close>), the stored suitability lies in \<open>[0, 1.5 \<cdot> density]\<close>: it never falls below
  \<open>0\<close>, and it is bounded by the terrain-affinity boost times the density, not by \<open>1\<close>.
\<close>

theorem stored_suitability_bounds:
  assumes "analyzed g" and "i < length (cells g)"
    and "0 \<le> p_height (props (cells g ! i))" and "p_height (props (cells g ! i)) \<le> 1"
    and "0 \<le> p_slope (props (cells g ! i))"
    and "0 \<le> density od"
    and "preferSteepSlopes (subTypeRulesOf d (subType od)) \<longrightarrow>
           (\<exists>m. maxSlope (placementRules d) = Some m \<and> 0 < m)"
    and "\<forall>l. location od = Some l \<and> (terrain l = None \<or> terrain l = Some []) \<longrightarrow> radius l \<noteq> 0"
    and "positiveGrid g"
  shows "\<exists>s. suitability (cells (calculateObjectSuitability od d g) ! i) (o_type od) = Some s \<and>
              0 \<le> s \<and> s \<le> 1.5 * density od"
  using suitabilityScore_bounds[OF assms(3-8), of g] assms(2)
  by (simp add: stored_suitability)

lemma tree_score_flat:
  assumes "i < 4"
  shows "suitabilityScore treeRequest treeDef flatGrid (cells flatGrid ! i) = 3 / 4"
    and "suitabilityScore forestRequest treeDef flatGrid (cells flatGrid ! i) = 6 / 5"
  by (simp_all add: suitabilityScore_def Let_def treeDef_def treeRequest_def forestRequest_def
      subTypeRulesOf_def emptyRules_def locationFactor_def cellHasTerrainFeature_def
      flatGrid_props[OF assms])

text \<open>
  C1, as claimed: every stored suitability lies in \<open>[0, 1]\<close>. The request that the prompt
  parser builds from "dense trees in the forest" (density \<open>0.8\<close>, terrain \<^verbatim>\<open>forest\<close>), scored
  on the level grid, stores \<open>1.0 \<cdot> 1.5 \<cdot> 0.8 = 1.2\<close> in every cell.
\<close>

theorem stored_suitability_exceeds_one:
  "suitability (cells (calculateObjectSuitability forestRequest treeDef flatGrid) ! 0)
     (o_type forestRequest) = Some (6 / 5) \<and> (6 / 5 :: real) > 1"
  by (simp add: stored_suitability flatGrid_size tree_score_flat)

theorem stored_suitability_bounds_witness:
  "analyzed flatGrid \<and> positiveGrid flatGrid \<and> 0 < length (cells flatGrid) \<and>
   (\<exists>s. suitability (cells (calculateObjectSuitability forestRequest treeDef flatGrid) ! 0)
          (o_type forestRequest) = Some s \<and> 0 \<le> s \<and> s \<le> 1.5 * density forestRequest)"
  using stored_suitability_bounds[of flatGrid 0 forestRequest treeDef]
  by (simp add: analyzed_flatGrid positive_flatGrid flatGrid_size flatGrid_props)
     (simp add: forestRequest_def treeRequest_def treeDef_def subTypeRulesOf_def emptyRules_def)

subsection \<open>Hard constraints: a cell that fails the gate is never set\<close>

lemma rowMajor_nth_eq:
  assumes "rowMajor g" "k < length (cells g)" "i < length (cells g)"
    "maskIndex g (cells g ! k) = int i"
  shows "k = i"
  using rowMajor_index[OF assms(1,2)] assms(4) by simp

lemma maskSet_other:
  assumes "idx \<noteq> int i"
  shows "maskSet m idx v ! i = m ! i"
  using assms by (auto simp add: maskSet_def)

lemma randomStep_zero:
  assumes "fst st ! i = 0" "suitOr0 (cells g ! i) ty = 0" "0 \<le> rnd (snd st)"
  shows "fst (randomStep rnd ty g j st) ! i = 0"
  using assms by (cases "j = i") (simp_all add: randomStep_def Let_def)

lemma randomLoop_zero:
  assumes "fst st ! i = 0" "suitOr0 (cells g ! i) ty = 0" "\<forall>k. 0 \<le> rnd k"
  shows "fst (fold (randomStep rnd ty g) js st) ! i = 0"
  using assms(1)
  by (induction js arbitrary: st) (simp_all add: randomStep_zero assms(2,3))

lemma seedStep_zero:
  assumes "fst st ! i = 0" "suitOr0 (cells g ! i) ty = 0"
  shows "fst (naturalSeedStep rnd ty g j st) ! i = 0"
  using assms
  by (cases "j = i") (simp_all add: naturalSeedStep_def Let_def suitabilityThreshold_def)

lemma seedLoop_zero:
  assumes "fst st ! i = 0" "suitOr0 (cells g ! i) ty = 0"
  shows "fst (fold (naturalSeedStep rnd ty g) js st) ! i = 0"
  using assms(1)
  by (induction js arbitrary: st) (simp_all add: seedStep_zero assms(2))

lemma caStep_zero:
  assumes "rowMajor g" "j < length (cells g)" "new ! i = 0"
    "suitability (cells g ! i) ty = Some 0"
  shows "caStep ty g m j new ! i = 0"
proof (cases "j = i")
  case True
  with assms(4) have "\<not> gtNumber (suitability (cells g ! j) ty) (suitabilityThreshold * 0.7)"
    by (simp add: gtNumber_def suitabilityThreshold_def)
  moreover from True have "maskIndex g (cells g ! j) = int i"
    using rowMajor_index[OF assms(1,2)] by simp
  ultimately show ?thesis
    using assms(3) by (simp add: caStep_def Let_def maskSet_def)
next
  case False
  with rowMajor_index[OF assms(1,2)] have "maskIndex g (cells g ! j) \<noteq> int i" by simp
  with assms(3) show ?thesis by (simp add: caStep_def Let_def maskSet_other)
qed

lemma caIteration_zero:
  assumes "rowMajor g" "m ! i = 0" "suitability (cells g ! i) ty = Some 0"
  shows "caIteration ty g m ! i = 0"
proof -
  have "fold (caStep ty g m) js new ! i = 0"
    if "set js \<subseteq> {..<length (cells g)}" "new ! i = 0" for js new
    using that
    by (induction js arbitrary: new) (simp_all add: caStep_zero[OF assms(1) _ _ assms(3)])
  moreover have "set [0..<length (cells g)] \<subseteq> {..<length (cells g)}" by auto
  ultimately show ?thesis unfolding caIteration_def using assms(2) by blast
qed

lemma caIterations_zero:
  assumes "rowMajor g" "m ! i = 0" "suitability (cells g ! i) ty = Some 0"
  shows "(caIteration ty g ^^ k) m ! i = 0"
  using assms(2) by (induction k) (simp_all add: caIteration_zero[OF assms(1) _ assms(3)])

lemma clusterCellStep_zero:
  assumes "rowMajor g" "i < length (cells g)" "k < length (cells g)"
    "fst st ! i = 0" "suitOr0 (cells g ! i) ty = 0" "0 \<le> rnd (snd st)"
  shows "fst (clusterCellStep rnd ty g center r (cells g ! k) st) ! i = 0"
proof (cases "k = i")
  case True
  with assms show ?thesis by (simp add: clusterCellStep_def Let_def)
next
  case False
  with rowMajor_index[OF assms(1,3)] have "maskIndex g (cells g ! k) \<noteq> int i" by simp
  with assms(4) show ?thesis by (simp add: clusterCellStep_def Let_def maskSet_other)
qed

lemma clusterCells_zero:
  assumes "rowMajor g" "i < length (cells g)" "suitOr0 (cells g ! i) ty = 0" "\<forall>k. 0 \<le> rnd k"
    "\<forall>c \<in> set cs. \<exists>k < length (cells g). c = cells g ! k" "fst st ! i = 0"
  shows "fst (fold (clusterCellStep rnd ty g center r) cs st) ! i = 0"
  using assms(5,6)
proof (induction cs arbitrary: st)
  case Nil
  then show ?case by simp
next
  case (Cons c cs)
  from Cons.prems(1) obtain k where k: "k < length (cells g)" "c = cells g ! k" by auto
  have "fst (clusterCellStep rnd ty g center r c st) ! i = 0"
    unfolding k(2)
    by (rule clusterCellStep_zero[OF assms(1,2) k(1) Cons.prems(2) assms(3)]) (simp add: assms(4))
  with Cons show ?case by simp
qed

lemma clusterStep_zero:
  assumes "rowMajor g" "i < length (cells g)" "suitOr0 (cells g ! i) ty = 0" "\<forall>k. 0 \<le> rnd k"
    "fst st ! i = 0"
  shows "fst (clusterStep rnd ty g r center st) ! i = 0"
  unfolding clusterStep_def
  by (rule clusterCells_zero[OF assms(1-4) _ assms(5)]) (auto dest: getCellsInRadius_nth)

lemma clusterLoop_zero:
  assumes "rowMajor g" "i < length (cells g)" "suitOr0 (cells g ! i) ty = 0" "\<forall>k. 0 \<le> rnd k"
    "fst st ! i = 0"
  shows "fst (fold (clusterStep rnd ty g r) centers st) ! i = 0"
  using assms(5)
  by (induction centers arbitrary: st) (simp_all add: clusterStep_zero[OF assms(1-4)])

lemma waterStep_zero:
  assumes "fst st ! i = 0" "waterSuitability od g (cells g ! i) = 0" "0 \<le> rnd (snd st)"
  shows "fst (waterStep rnd od g j st) ! i = 0"
  using assms by (cases "j = i") (simp_all add: waterStep_def Let_def)

lemma waterLoop_zero:
  assumes "fst st ! i = 0" "waterSuitability od g (cells g ! i) = 0" "\<forall>k. 0 \<le> rnd k"
  shows "fst (fold (waterStep rnd od g) js st) ! i = 0"
  using assms(1)
  by (induction js arbitrary: st) (simp_all add: waterStep_zero assms(2,3))

lemma waterSuitability_zero:
  assumes "suitOr0 c (o_type od) = 0"
  shows "waterSuitability od g c = 0"
  using assms by (simp add: waterSuitability_def Let_def)

lemma emptyMask_nth: "i < length (cells g) \<Longrightarrow> m_cells (emptyMask g) ! i = 0"
  by (simp add: emptyMask_def)

lemma strategies_zero:
  assumes "rowMajor g" "i < length (cells g)" "suitability (cells g ! i) (o_type od) = Some 0"
    "\<forall>k. 0 \<le> rnd k" "m_cells mk ! i = 0"
  shows "m_cells (fst (createRandomDistributionMask rnd od (mk, n) g)) ! i = 0"
    and "m_cells (fst (createNaturalDistributionMask rnd od (mk, n) g)) ! i = 0"
    and "m_cells (fst (createClusteredDistributionMask rnd od (mk, n) g)) ! i = 0"
    and "m_cells (fst (createWaterDistributionMask rnd od (mk, n) g)) ! i = 0"
proof -
  from assms(3) have s0: "suitOr0 (cells g ! i) (o_type od) = 0" by (simp add: suitOr0_def)
  show "m_cells (fst (createRandomDistributionMask rnd od (mk, n) g)) ! i = 0"
    by (simp add: createRandomDistributionMask_def Let_def randomLoop_zero s0 assms(4,5))
  show "m_cells (fst (createNaturalDistributionMask rnd od (mk, n) g)) ! i = 0"
    by (simp add: createNaturalDistributionMask_def Let_def
        caIterations_zero[OF assms(1) _ assms(3)] seedLoop_zero s0 assms(5))
  show "m_cells (fst (createClusteredDistributionMask rnd od (mk, n) g)) ! i = 0"
    by (simp add: createClusteredDistributionMask_def Let_def
        clusterLoop_zero[OF assms(1,2) s0 assms(4)] assms(5))
  show "m_cells (fst (createWaterDistributionMask rnd od (mk, n) g)) ! i = 0"
    by (simp add: createWaterDistributionMask_def Let_def waterLoop_zero
        waterSuitability_zero[OF s0] assms(4,5))
qed

lemma createPlacementMask_zero:
  assumes "rowMajor g" "i < length (cells g)" "suitability (cells g ! i) (o_type od) = Some 0"
    "\<forall>k. 0 \<le> rnd k" "m_cells mk ! i = 0"
  shows "m_cells (fst (createPlacementMask rnd od (mk, n) g)) ! i = 0"
  using strategies_zero[OF assms] by (simp add: createPlacementMask_def Let_def)

lemma gate_score_zero:
  assumes "(\<exists>m. maxSlope (placementRules d) = Some m \<and> p_slope (props c) > m) \<or>
           p_height (props c) < r_minHeight (placementRules d) \<or>
           p_height (props c) > r_maxHeight (placementRules d)"
  shows "suitabilityScore od d g c = 0"
  using assms by (cases "maxSlope (placementRules d)") (auto simp add: suitabilityScore_def Let_def)

text \<open>
  C2. On a grid of positive dimensions whose cells carry their row-major coordinates,
  for every request and definition, every sequence of draws in which no draw is
  negative, and every cell whose slope exceeds the definition's \<^verbatim>\<open>maxSlope\<close> or whose mean height lies outside
  \<open>[minHeight, maxHeight]\<close>: the stored suitability is exactly \<open>0\<close>, and the cell's value is
  \<open>0\<close> in the mask that \<^verbatim>\<open>createPlacementMask\<close> produces from the all-zero mask, and in the
  mask that each of the four strategies produces.
\<close>

theorem hard_constraint_soundness:
  assumes "rowMajor g" and "analyzed g" and "i < length (cells g)" and "\<forall>k. 0 \<le> rnd k"
    and "(\<exists>m. maxSlope (placementRules d) = Some m \<and> p_slope (props (cells g ! i)) > m) \<or>
         p_height (props (cells g ! i)) < r_minHeight (placementRules d) \<or>
         p_height (props (cells g ! i)) > r_maxHeight (placementRules d)"
    and "positiveGrid g"
  shows "suitability (cells (calculateObjectSuitability od d g) ! i) (o_type od) = Some 0 \<and>
    m_cells (fst (createPlacementMask rnd od (emptyMask g, n)
       (calculateObjectSuitability od d g))) ! i = 0 \<and>
    m_cells (fst (createRandomDistributionMask rnd od (emptyMask g, n)
       (calculateObjectSuitability od d g))) ! i = 0 \<and>
    m_cells (fst (createNaturalDistributionMask rnd od (emptyMask g, n)
       (calculateObjectSuitability od d g))) ! i = 0 \<and>
    m_cells (fst (createClusteredDistributionMask rnd od (emptyMask g, n)
       (calculateObjectSuitability od d g))) ! i = 0 \<and>
    m_cells (fst (createWaterDistributionMask rnd od (emptyMask g, n)
       (calculateObjectSuitability od d g))) ! i = 0"
proof -
  let ?g = "calculateObjectSuitability od d g"
  have st: "suitability (cells ?g ! i) (o_type od) = Some 0"
    using assms(3) gate_score_zero[OF assms(5), of od g] by (simp add: stored_suitability)
  have rm: "rowMajor ?g" by (rule rowMajor_suitability[OF assms(1)])
  have i: "i < length (cells ?g)" using assms(3) by simp
  have e: "m_cells (emptyMask g) ! i = 0" using assms(3) by (rule emptyMask_nth)
  from st strategies_zero[OF rm i st assms(4) e] createPlacementMask_zero[OF rm i st assms(4) e]
  show ?thesis by simp
qed

theorem hard_constraint_soundness_witness:
  "rowMajor peakGrid \<and> analyzed peakGrid \<and> positiveGrid peakGrid \<and>
   0 < length (cells peakGrid) \<and>
   (\<forall>k. 0 \<le> lowDraws k) \<and>
   p_height (props (cells peakGrid ! 0)) > r_maxHeight (placementRules treeDef) \<and>
   suitability (cells (calculateObjectSuitability forestRequest treeDef peakGrid) ! 0)
     (o_type forestRequest) = Some 0 \<and>
   m_cells (fst (createPlacementMask lowDraws forestRequest (emptyMask peakGrid, 0)
     (calculateObjectSuitability forestRequest treeDef peakGrid))) ! 0 = 0"
proof -
  have rm: "rowMajor peakGrid"
    unfolding peakGrid_def by (intro rowMajor_analysis rowMajor_createGrid)
  have an: "analyzed peakGrid" unfolding peakGrid_def by (rule analyzed_analysis)
  have gate: "p_height (props (cells peakGrid ! 0)) > r_maxHeight (placementRules treeDef)"
    by (simp add: peakGrid_heights treeDef_def)
  have pos: "positiveGrid peakGrid" by (simp add: peakGrid_def positive_grid2)
  from hard_constraint_soundness[OF rm an, of 0 lowDraws treeDef forestRequest 0] rm an gate pos
  show ?thesis by (simp add: peakGrid_size lowDraws_def)
qed

subsection \<open>The water strategy with the deep-water flag\<close>

lemma deep_excludes_edge:
  assumes "requireDeepWater (waterRules od)"
  shows "\<not> requireWaterEdge (waterRules od)"
  using assms
  by (auto simp add: waterRules_def objectDefinitions_def subTypeRulesOf_def treeDef_def
      rockDef_def buildingDef_def waterObjectDef_def vegetationDef_def emptyRules_def
      split: if_splits)

lemma deep_waterSuitability_zero:
  assumes "requireDeepWater (waterRules od)" "0.1 \<le> p_height (props c)"
  shows "waterSuitability od g c = 0"
  using assms deep_excludes_edge[OF assms(1)] by (simp add: waterSuitability_def Let_def)

lemma createPlacementMask_water:
  assumes "distribution od = Some ''water''"
  shows "createPlacementMask rnd od st g = createWaterDistributionMask rnd od st g"
  using assms by (simp add: createPlacementMask_def distributionOf_def)

text \<open>
  C8. For a request using the water distribution whose subtype sets
  \<^verbatim>\<open>requireDeepWater\<close>, over an analysed grid in which one cell has mean height \<open>0.03\<close> and
  every other cell has mean height at least \<open>0.1\<close>: for every sequence of draws none of
  which is negative, and whatever the stored suitabilities, the mask produced from the
  all-zero mask is \<open>0\<close> at every other cell.
\<close>

theorem deep_water_only_cell:
  assumes "distribution od = Some ''water''" and "requireDeepWater (waterRules od)"
    and "analyzed g" and "k < length (cells g)"
    and "p_height (props (cells g ! k)) = 0.03"
    and "\<forall>j < length (cells g). j \<noteq> k \<longrightarrow> 0.1 \<le> p_height (props (cells g ! j))"
    and "\<forall>j. 0 \<le> rnd j"
    and "i < length (cells g)" and "i \<noteq> k"
  shows "m_cells (fst (createPlacementMask rnd od (emptyMask g, n) g)) ! i = 0"
proof -
  from assms(6,8,9) have "0.1 \<le> p_height (props (cells g ! i))" by simp
  with assms(2) have "waterSuitability od g (cells g ! i) = 0"
    by (rule deep_waterSuitability_zero)
  moreover have "m_cells (emptyMask g) ! i = 0" using assms(8) by (rule emptyMask_nth)
  ultimately show ?thesis
    using assms(7)
    by (simp add: createPlacementMask_water[OF assms(1)] createWaterDistributionMask_def Let_def
        waterLoop_zero)
qed

lemma samples_deep:
  "cellSamples deepMap (mkCell 1 1 0 0) = replicate 25 (3 / 100)"
  "cellSamples deepMap (mkCell 1 1 (Suc 0) 0) = replicate 25 (1 / 2)"
  "cellSamples deepMap (mkCell 1 1 0 (Suc 0)) = replicate 25 (1 / 2)"
  "cellSamples deepMap (mkCell 1 1 (Suc 0) (Suc 0)) = replicate 25 (1 / 2)"
  by (simp_all add: cellSamples_def mkCell_def sampleCount_def upt_5 deepMap_def eval_nat_numeral)

lemma deepGrid_size: "gridSize deepGrid = 2" "length (cells deepGrid) = 4"
  by (simp_all add: deepGrid_def cells_grid2)

lemma deepGrid_heights:
  "p_height (props (cells deepGrid ! 0)) = 3 / 100"
  "p_height (props (cells deepGrid ! Suc 0)) = 1 / 2"
  "p_height (props (cells deepGrid ! 2)) = 1 / 2"
  "p_height (props (cells deepGrid ! 3)) = 1 / 2"
  using analyzed_cell[of 0 "createGrid 2 2 2" deepMap]
    analyzed_cell[of 1 "createGrid 2 2 2" deepMap]
    analyzed_cell[of 2 "createGrid 2 2 2" deepMap]
    analyzed_cell[of 3 "createGrid 2 2 2" deepMap]
  by (simp_all add: deepGrid_def cells_grid2 props_def height_analyzed samples_deep
      foldl_add_replicate)

lemma less_4_cases: "j < 4 \<Longrightarrow> j = 0 \<or> j = Suc 0 \<or> j = 2 \<or> j = 3"
  by arith

lemma boatGrid_size: "gridSize boatGrid = 2" "length (cells boatGrid) = 4"
  by (simp_all add: boatGrid_def deepGrid_size)

lemma boatGrid_heights:
  "p_height (props (cells boatGrid ! 0)) = 3 / 100"
  "p_height (props (cells boatGrid ! Suc 0)) = 1 / 2"
  "p_height (props (cells boatGrid ! 2)) = 1 / 2"
  "p_height (props (cells boatGrid ! 3)) = 1 / 2"
  by (simp_all add: boatGrid_def props_suitability deepGrid_size deepGrid_heights)

lemma boatGrid_shallow:
  assumes "j < 4" "j \<noteq> 0"
  shows "p_height (props (cells boatGrid ! j)) = 1 / 2"
  using less_4_cases[OF assms(1)] assms(2) by (auto simp add: boatGrid_heights)

lemma boat_rules: "waterRules boatRequest = emptyRules\<lparr>requireDeepWater := True\<rparr>"
  by (simp add: waterRules_def boatRequest_def objectDefinitions_def subTypeRulesOf_def
      waterObjectDef_def)

lemma boatGrid_suitability0: "suitability (cells boatGrid ! 0) ''waterObject'' = Some (1 / 2)"
proof -
  have "suitabilityScore boatRequest waterObjectDef deepGrid (cells deepGrid ! 0) = 1 / 2"
    by (simp add: suitabilityScore_def Let_def waterObjectDef_def boatRequest_def
        subTypeRulesOf_def emptyRules_def locationFactor_def deepGrid_heights)
  with stored_suitability[of 0 deepGrid boatRequest waterObjectDef]
  show ?thesis by (simp add: boatGrid_def deepGrid_size) (simp add: boatRequest_def)
qed

lemma boat_waterSuitability:
  "waterSuitability boatRequest boatGrid (cells boatGrid ! 0) = 1 / 2"
  "waterSuitability boatRequest boatGrid (cells boatGrid ! Suc 0) = 0"
  "waterSuitability boatRequest boatGrid (cells boatGrid ! 2) = 0"
  "waterSuitability boatRequest boatGrid (cells boatGrid ! 3) = 0"
proof -
  have t: "o_type boatRequest = ''waterObject''" by (simp add: boatRequest_def)
  show "waterSuitability boatRequest boatGrid (cells boatGrid ! 0) = 1 / 2"
    by (simp add: waterSuitability_def Let_def boat_rules emptyRules_def boatGrid_heights
        suitOr0_def t boatGrid_suitability0)
  show "waterSuitability boatRequest boatGrid (cells boatGrid ! Suc 0) = 0"
    "waterSuitability boatRequest boatGrid (cells boatGrid ! 2) = 0"
    "waterSuitability boatRequest boatGrid (cells boatGrid ! 3) = 0"
    by (simp_all add: deep_waterSuitability_zero boat_rules emptyRules_def boatGrid_heights)
qed

lemma boat_mask:
  "m_cells (fst (createPlacementMask lowDraws boatRequest (emptyMask boatGrid, 0) boatGrid)) =
     [1, 0, 0, 0]"
proof -
  have d: "distribution boatRequest = Some ''water''" by (simp add: boatRequest_def)
  have e: "m_cells (emptyMask boatGrid) = [0, 0, 0, 0]"
    by (simp add: emptyMask_def boatGrid_size eval_nat_numeral)
  show ?thesis
    by (simp add: createPlacementMask_water[OF d] createWaterDistributionMask_def Let_def e
        boatGrid_size upt_4 waterStep_def boat_waterSuitability lowDraws_def)
qed

text \<open>
  On the example grid the three shallow cells stay \<open>0\<close>, and the deep cell is set by
  draws below its suitability \<open>0.5\<close>.
\<close>

theorem deep_water_only_cell_witness:
  "distribution boatRequest = Some ''water'' \<and> requireDeepWater (waterRules boatRequest) \<and>
   analyzed boatGrid \<and> length (cells boatGrid) = 4 \<and>
   p_height (props (cells boatGrid ! 0)) = 0.03 \<and>
   list_all (\<lambda>j. 0.1 \<le> p_height (props (cells boatGrid ! j))) [1, 2, 3] \<and>
   (\<forall>j. 0 \<le> lowDraws j) \<and>
   m_cells (fst (createPlacementMask lowDraws boatRequest (emptyMask boatGrid, 0) boatGrid)) ! 2
     = 0 \<and>
   m_cells (fst (createPlacementMask lowDraws boatRequest (emptyMask boatGrid, 0) boatGrid)) ! 0
     = 1"
proof -
  have an: "analyzed boatGrid"
    unfolding boatGrid_def deepGrid_def by (intro analyzed_suitability analyzed_analysis)
  have d: "distribution boatRequest = Some ''water''" by (simp add: boatRequest_def)
  have r: "requireDeepWater (waterRules boatRequest)" by (simp add: boat_rules)
  have sh: "\<forall>j < length (cells boatGrid). j \<noteq> 0 \<longrightarrow> 0.1 \<le> p_height (props (cells boatGrid ! j))"
    by (simp add: boatGrid_size boatGrid_shallow)
  have dr: "\<forall>j. 0 \<le> lowDraws j" by (simp add: lowDraws_def)
  from deep_water_only_cell[where od = boatRequest and g = boatGrid and k = 0 and i = 2
      and rnd = lowDraws and n = 0] an d r sh dr
  show ?thesis by (simp add: boatGrid_size boatGrid_heights boat_mask)
qed

subsection \<open>Undeclared subtypes, and the choice of the strategy\<close>

lemma empty_flags:
  "preferHigherElevation emptyRules = False" "preferLowerElevation emptyRules = False"
  "preferSteepSlopes emptyRules = False" "requireFlatArea emptyRules = False"
  "requireWaterAccess emptyRules = False" "requireDeepWater emptyRules = False"
  "requireWaterEdge emptyRules = False"
  by (simp_all add: emptyRules_def)

lemma waterLoop_nth:
  assumes "i < length (fst st)"
  shows "fst (fold (waterStep rnd od g) [0..<k] st) ! i =
           (if i < k \<and> rnd (snd st + i) < waterSuitability od g (cells g ! i) then 1
            else fst st ! i) \<and>
         snd (fold (waterStep rnd od g) [0..<k] st) = snd st + k \<and>
         length (fst (fold (waterStep rnd od g) [0..<k] st)) = length (fst st)"
proof (induction k)
  case 0
  show ?case by simp
next
  case (Suc k)
  then show ?case
    using assms by (auto simp add: waterStep_def Let_def nth_list_update less_Suc_eq)
qed

lemma water_mask_nth:
  assumes "i < length (cells g)"
  shows "m_cells (fst (createWaterDistributionMask rnd od (emptyMask g, n) g')) ! i =
           (if i < length (cells g') \<and> rnd (n + i) < waterSuitability od g' (cells g' ! i)
            then 1 else 0)"
proof -
  have "i < length (fst (m_cells (emptyMask g), n))" using assms by (simp add: emptyMask_def)
  from waterLoop_nth[OF this, of rnd od g' "length (cells g')"] assms
  show ?thesis by (simp add: createWaterDistributionMask_def Let_def emptyMask_def)
qed

lemma undeclared_rules:
  assumes "subtypes d st = None"
  shows "subTypeRulesOf d st = emptyRules"
  using assms by (simp add: subTypeRulesOf_def)

lemma plain_score:
  assumes "subTypeRulesOf d (subType od) = emptyRules"
  shows "suitabilityScore od d g c =
           (if (case maxSlope (placementRules d) of None \<Rightarrow> False
                | Some m \<Rightarrow> p_slope (props c) > m) \<or>
               p_height (props c) < r_minHeight (placementRules d) \<or>
               p_height (props c) > r_maxHeight (placementRules d)
            then 0 else locationFactor od g c * density od)"
  by (simp add: suitabilityScore_def Let_def assms empty_flags)

lemma plain_waterSuitability:
  assumes "waterRules od = emptyRules"
  shows "waterSuitability od g c =
           (if p_height (props c) < 0.1 then suitOr0 c (o_type od) else 0)"
  by (simp add: waterSuitability_def Let_def assms empty_flags)

text \<open>
  C10. On an analysed grid of positive dimensions, a request whose type has a definition
  in the rule table and whose subtype that definition does not declare (an anchored
  location having a radius other than \<open>0\<close>) is neither skipped nor an error:
  \<^verbatim>\<open>processObject\<close> returns, with the scored grid and with the mask that the chosen
  strategy produces for it. The score that the engine stores for a cell is \<open>0\<close> behind the
  hard gate and location factor times density past it, and the scored grid is the one the
  engine builds for a definition that declares the subtype with empty \<^verbatim>\<open>customRules\<close>.
  Under the water
  distribution it is the plain-water case: the water suitability of a cell is that
  stored score when the cell's mean height is below \<open>0.1\<close> and \<open>0\<close> otherwise, and cell \<open>i\<close>
  of the mask built from the all-zero mask is \<open>1\<close> exactly when the draw made for it, the
  \<open>i\<close>-th of the strategy, is below that water suitability.
\<close>

theorem undeclared_subtype_has_empty_rules:
  assumes "objectDefinitions (o_type od) = Definition d" and "subtypes d (subType od) = None"
    and "i < length (cells g)" and "analyzed g" and "positiveGrid g"
    and "\<forall>l. location od = Some l \<and> (terrain l = None \<or> terrain l = Some []) \<longrightarrow> radius l \<noteq> 0"
  shows "let g' = calculateObjectSuitability od d g;
             r = createPlacementMask rnd od (emptyMask g, n) g';
             c = cells g ! i;
             score = (if (case maxSlope (placementRules d) of None \<Rightarrow> False
                          | Some m \<Rightarrow> p_slope (props c) > m) \<or>
                         p_height (props c) < r_minHeight (placementRules d) \<or>
                         p_height (props c) > r_maxHeight (placementRules d)
                      then 0 else locationFactor od g c * density od)
         in processObject rnd od (pm, g, n) = Inr (pm(o_type od \<mapsto> fst r), g', snd r) \<and>
            suitability (cells g' ! i) (o_type od) = Some score \<and>
            g' = calculateObjectSuitability od
                   (d\<lparr>subtypes := (subtypes d)(subType od \<mapsto> emptyRules)\<rparr>) g \<and>
            (distribution od = Some ''water'' \<longrightarrow>
               m_cells (fst r) ! i =
                 (if rnd (n + i) < (if p_height (props c) < 0.1 then score else 0) then 1
                  else 0))"
proof -
  let ?g' = "calculateObjectSuitability od d g"
  let ?r = "createPlacementMask rnd od (emptyMask g, n) ?g'"
  let ?c = "cells g ! i"
  let ?score = "if (case maxSlope (placementRules d) of None \<Rightarrow> False
                          | Some m \<Rightarrow> p_slope (props ?c) > m) \<or>
                         p_height (props ?c) < r_minHeight (placementRules d) \<or>
                         p_height (props ?c) > r_maxHeight (placementRules d)
                      then 0 else locationFactor od g ?c * density od"
  have r: "subTypeRulesOf d (subType od) = emptyRules"
    using assms(2) by (rule undeclared_rules)
  have w: "waterRules od = emptyRules"
    using assms(1) r by (simp add: waterRules_def)
  have p: "processObject rnd od (pm, g, n) = Inr (pm(o_type od \<mapsto> fst ?r), ?g', snd ?r)"
    using assms(1) by (simp add: processObject_def placeObject_def Let_def)
  have sc: "suitabilityScore od d g ?c = ?score"
    using r by (rule plain_score)
  have st: "suitability (cells ?g' ! i) (o_type od) = Some ?score"
    using stored_suitability[OF assms(3), of od d] sc by simp
  have r': "subTypeRulesOf (d\<lparr>subtypes := (subtypes d)(subType od \<mapsto> emptyRules)\<rparr>)
              (subType od) = emptyRules"
    by (simp add: subTypeRulesOf_def)
  have "suitabilityScore od (d\<lparr>subtypes := (subtypes d)(subType od \<mapsto> emptyRules)\<rparr>) g c' =
        suitabilityScore od d g c'" for c'
    by (simp add: suitabilityScore_def Let_def r r')
  then have eq: "?g' = calculateObjectSuitability od
             (d\<lparr>subtypes := (subtypes d)(subType od \<mapsto> emptyRules)\<rparr>) g"
    by (simp add: calculateObjectSuitability_def)
  have wm: "m_cells (fst ?r) ! i =
              (if rnd (n + i) < (if p_height (props ?c) < 0.1 then ?score else 0) then 1
               else 0)"
    if d: "distribution od = Some ''water''"
  proof -
    have ws: "waterSuitability od ?g' (cells ?g' ! i) =
                (if p_height (props ?c) < 0.1 then ?score else 0)"
      using st by (simp add: plain_waterSuitability[OF w] props_suitability[OF assms(3)]
          suitOr0_def)
    have "m_cells (fst ?r) ! i =
            (if rnd (n + i) < waterSuitability od ?g' (cells ?g' ! i) then 1 else 0)"
      using water_mask_nth[OF assms(3), of rnd od n ?g'] assms(3)
      by (simp add: createPlacementMask_water[OF d])
    then show ?thesis unfolding ws .
  qed
  from p st eq wm show ?thesis unfolding Let_def by blast
qed

lemma raft_facts:
  "objectDefinitions (o_type raftRequest) = Definition waterObjectDef"
  "subtypes waterObjectDef (subType raftRequest) = None"
  "distribution raftRequest = Some ''water''"
  "o_type raftRequest = ''waterObject''"
  "density raftRequest = 1 / 2"
  "location raftRequest = Some \<lparr> l_x = 1 / 4, l_y = 1 / 4, radius = 1 / 2, terrain = None \<rparr>"
  "objectDefinitions ''waterObject'' = Definition waterObjectDef"
  by (simp_all add: raftRequest_def objectDefinitions_def waterObjectDef_def)

lemma deepGrid_frame:
  "g_width deepGrid = 2" "g_height deepGrid = 2"
  "centerX (cells deepGrid ! 0) = 1 / 2" "centerY (cells deepGrid ! 0) = 1 / 2"
proof -
  show "g_width deepGrid = 2" "g_height deepGrid = 2"
    by (simp_all add: deepGrid_def) (simp_all add: createGrid_def)
  have "0 < length (cells (createGrid 2 2 2))" by (simp add: cells_grid2)
  from analyzed_cell[OF this, of deepMap]
  show "centerX (cells deepGrid ! 0) = 1 / 2" "centerY (cells deepGrid ! 0) = 1 / 2"
    by (simp_all add: deepGrid_def cells_grid2 mkCell_def)
qed

lemma raft_locationFactor: "locationFactor raftRequest deepGrid (cells deepGrid ! 0) = 1"
  by (simp add: locationFactor_def raft_facts calculateDistance_def deepGrid_frame Let_def)

lemma waterObject_limits:
  "maxSlope (placementRules waterObjectDef) = None"
  "r_minHeight (placementRules waterObjectDef) = 0"
  "r_maxHeight (placementRules waterObjectDef) = 1 / 5"
  by (simp_all add: waterObjectDef_def)

text \<open>
  The request for water objects of the undeclared subtype \<^verbatim>\<open>default\<close>, anchored on the
  deep corner of the grid: the corner's stored score is the density \<open>0.5\<close>, and a draw of
  \<open>0.25\<close> sets the corner in the mask.
\<close>

theorem undeclared_subtype_has_empty_rules_witness:
  "objectDefinitions (o_type raftRequest) = Definition waterObjectDef \<and>
   subtypes waterObjectDef (subType raftRequest) = None \<and>
   0 < length (cells deepGrid) \<and> analyzed deepGrid \<and> positiveGrid deepGrid \<and>
   location raftRequest = Some \<lparr> l_x = 1 / 4, l_y = 1 / 4, radius = 1 / 2, terrain = None \<rparr> \<and>
   distribution raftRequest = Some ''water'' \<and>
   processObject lowDraws raftRequest (Map.empty, deepGrid, 0) =
     Inr (Map.empty(''waterObject'' \<mapsto>
            fst (createPlacementMask lowDraws raftRequest (emptyMask deepGrid, 0)
                  (calculateObjectSuitability raftRequest waterObjectDef deepGrid))),
          calculateObjectSuitability raftRequest waterObjectDef deepGrid,
          snd (createPlacementMask lowDraws raftRequest (emptyMask deepGrid, 0)
                  (calculateObjectSuitability raftRequest waterObjectDef deepGrid))) \<and>
   suitability (cells (calculateObjectSuitability raftRequest waterObjectDef deepGrid) ! 0)
     ''waterObject'' = Some (1 / 2) \<and>
   m_cells (fst (createPlacementMask lowDraws raftRequest (emptyMask deepGrid, 0)
                  (calculateObjectSuitability raftRequest waterObjectDef deepGrid))) ! 0 = 1"
proof -
  have l: "0 < length (cells deepGrid)" by (simp add: deepGrid_size)
  have an: "analyzed deepGrid" unfolding deepGrid_def by (rule analyzed_analysis)
  have po: "positiveGrid deepGrid" by (simp add: deepGrid_def positive_grid2)
  have ra: "\<forall>l. location raftRequest = Some l \<and> (terrain l = None \<or> terrain l = Some []) \<longrightarrow>
                radius l \<noteq> 0"
    by (simp add: raft_facts)
  note t = undeclared_subtype_has_empty_rules[OF raft_facts(1) raft_facts(2) l an po ra,
      of lowDraws 0 Map.empty, unfolded Let_def]
  from t[THEN conjunct1] t[THEN conjunct2, THEN conjunct1]
    t[THEN conjunct2, THEN conjunct2, THEN conjunct2]
  show ?thesis
    by (simp add: raft_facts raft_locationFactor waterObject_limits deepGrid_heights
        deepGrid_size lowDraws_def an po)
qed

lemma tree_stored:
  assumes "i < 4"
  shows "suitability (cells treeGrid ! i) ''tree'' = Some (3 / 4)"
proof -
  from assms have "i < length (cells flatGrid)" by (simp add: flatGrid_size)
  from stored_suitability[OF this, of treeRequest treeDef] assms
  show ?thesis by (simp add: treeGrid_def tree_score_flat) (simp add: treeRequest_def)
qed

lemma treeGrid_size: "gridSize treeGrid = 2" "length (cells treeGrid) = 4"
  by (simp_all add: treeGrid_def flatGrid_size)

lemma rowMajor_treeGrid: "rowMajor treeGrid"
  unfolding treeGrid_def by (intro rowMajor_suitability rowMajor_flatGrid)

lemma emptyMask_tree: "m_cells (emptyMask treeGrid) = [0, 0, 0, 0]"
  by (simp add: emptyMask_def treeGrid_size eval_nat_numeral)

lemma tree_random:
  "m_cells (fst (createRandomDistributionMask firstLow treeRequest (emptyMask treeGrid, 0)
     treeGrid)) = [1, 0, 0, 0]"
proof -
  have t: "o_type treeRequest = ''tree''" by (simp add: treeRequest_def)
  show ?thesis
    by (simp add: createRandomDistributionMask_def Let_def emptyMask_tree treeGrid_size upt_4 t
        randomStep_def suitOr0_def tree_stored firstLow_def)
qed

lemma tree_index:
  "maskIndex treeGrid (cells treeGrid ! 0) = 0"
  "maskIndex treeGrid (cells treeGrid ! Suc 0) = 1"
  "maskIndex treeGrid (cells treeGrid ! 2) = 2"
  "maskIndex treeGrid (cells treeGrid ! 3) = 3"
  using rowMajor_index[OF rowMajor_treeGrid, of 0] rowMajor_index[OF rowMajor_treeGrid, of 1]
    rowMajor_index[OF rowMajor_treeGrid, of 2] rowMajor_index[OF rowMajor_treeGrid, of 3]
  by (simp_all add: treeGrid_size)

lemma tree_seed:
  "fold (naturalSeedStep firstLow ''tree'' treeGrid) [0..<4] ([0, 0, 0, 0], 0) =
     ([1, 0, 0, 0], 4)"
  by (simp add: upt_4 naturalSeedStep_def Let_def suitOr0_def tree_stored
      suitabilityThreshold_def firstLow_def)

lemma tree_ca1: "caIteration ''tree'' treeGrid [1, 0, 0, 0] = [0, 0, 0, 0]"
  by (simp add: caIteration_def treeGrid_size upt_4 caStep_def Let_def
      neighbors_2x2[OF rowMajor_treeGrid treeGrid_size(1)] tree_index maskIs1_def maskSet_def)

lemma tree_ca2: "caIteration ''tree'' treeGrid [0, 0, 0, 0] = [0, 0, 0, 0]"
  by (simp add: caIteration_def treeGrid_size upt_4 caStep_def Let_def
      neighbors_2x2[OF rowMajor_treeGrid treeGrid_size(1)] tree_index maskIs1_def maskSet_def)

lemma tree_natural:
  "m_cells (fst (createNaturalDistributionMask firstLow treeRequest (emptyMask treeGrid, 0)
     treeGrid)) = [0, 0, 0, 0]"
proof -
  have t: "o_type treeRequest = ''tree''" by (simp add: treeRequest_def)
  show ?thesis
    by (simp add: createNaturalDistributionMask_def Let_def emptyMask_tree treeGrid_size t
        tree_seed iterations_def funpow_2 tree_ca1 tree_ca2)
qed

text \<open>
  C6, as claimed: a request that names no strategy falls back to its type's default
  distribution. The request for trees names none and the rule table's default for
  \<^verbatim>\<open>tree\<close> is \<^verbatim>\<open>natural\<close>; \<^verbatim>\<open>createPlacementMask\<close> produces the mask of the random strategy,
  which on the example differs from the mask of the natural strategy.
\<close>

theorem missing_distribution_uses_random:
  "distribution treeRequest = None \<and>
   objectDefinitions (o_type treeRequest) = Definition treeDef \<and>
   defaultDistribution treeDef = ''natural'' \<and>
   m_cells (fst (createPlacementMask firstLow treeRequest (emptyMask treeGrid, 0) treeGrid)) =
     [1, 0, 0, 0] \<and>
   m_cells (fst (createNaturalDistributionMask firstLow treeRequest (emptyMask treeGrid, 0)
     treeGrid)) = [0, 0, 0, 0]"
proof -
  have "createPlacementMask firstLow treeRequest (emptyMask treeGrid, 0) treeGrid =
        createRandomDistributionMask firstLow treeRequest (emptyMask treeGrid, 0) treeGrid"
    by (simp add: createPlacementMask_def distributionOf_def treeRequest_def)
  then show ?thesis
    by (simp add: tree_random tree_natural)
       (simp add: treeRequest_def objectDefinitions_def treeDef_def)
qed

text \<open>
  C6, as amended. The synthesizer selects the strategy that the request's distribution
  field names when that is \<^verbatim>\<open>natural\<close>, \<^verbatim>\<open>clustered\<close> or \<^verbatim>\<open>water\<close>; for a request that names no
  strategy, or any other name, it uses the random strategy. It does not read the rule
  table's default distribution.
\<close>

theorem strategy_selection:
  "(distribution od = Some ''natural'' \<longrightarrow>
      createPlacementMask rnd od st g = createNaturalDistributionMask rnd od st g) \<and>
   (distribution od = Some ''clustered'' \<longrightarrow>
      createPlacementMask rnd od st g = createClusteredDistributionMask rnd od st g) \<and>
   (distribution od = Some ''water'' \<longrightarrow>
      createPlacementMask rnd od st g = createWaterDistributionMask rnd od st g) \<and>
   (distribution od \<notin> {Some ''natural'', Some ''clustered'', Some ''water''} \<longrightarrow>
      createPlacementMask rnd od st g = createRandomDistributionMask rnd od st g)"
  by (cases "distribution od")
     (auto simp add: createPlacementMask_def distributionOf_def Let_def)

theorem strategy_selection_witness:
  "distribution treeRequest \<notin> {Some ''natural'', Some ''clustered'', Some ''water''} \<and>
   createPlacementMask firstLow treeRequest (emptyMask treeGrid, 0) treeGrid =
     createRandomDistributionMask firstLow treeRequest (emptyMask treeGrid, 0) treeGrid \<and>
   distribution forestRequest = Some ''natural'' \<and>
   createPlacementMask firstLow forestRequest (emptyMask treeGrid, 0) treeGrid =
     createNaturalDistributionMask firstLow forestRequest (emptyMask treeGrid, 0) treeGrid"
  using strategy_selection[of treeRequest firstLow "(emptyMask treeGrid, 0)" treeGrid]
    strategy_selection[of forestRequest firstLow "(emptyMask treeGrid, 0)" treeGrid]
  by (simp add: treeRequest_def forestRequest_def)

subsection \<open>The masks are complete, whatever the height source returns\<close>

lemma binaryMask_update:
  assumes "binaryMask N m" "v = 0 \<or> v = 1"
  shows "binaryMask N (m[i := v])"
  using assms set_update_subset_insert[of m i v]
  by (auto simp add: binaryMask_def list_all_iff)

lemma binaryMask_maskSet:
  assumes "binaryMask N m" "v = 0 \<or> v = 1"
  shows "binaryMask N (maskSet m idx v)"
  using assms by (simp add: maskSet_def binaryMask_update)

lemma binaryMask_replicate: "binaryMask N (replicate N 0)"
  by (simp add: binaryMask_def list_all_iff)

lemma fold_keeps:
  assumes "\<And>x s. P s \<Longrightarrow> P (f x s)" "P s"
  shows "P (fold f xs s)"
  using assms(2) by (induction xs arbitrary: s) (simp_all add: assms(1))

lemma random_binary:
  assumes "binaryMask N (m_cells mk)"
  shows "binaryMask N (m_cells (fst (createRandomDistributionMask rnd od (mk, n) g)))"
proof -
  have "binaryMask N (fst (fold (randomStep rnd (o_type od) g) js st))"
    if "binaryMask N (fst st)" for js st
    using that
    by (induction js arbitrary: st) (simp_all add: randomStep_def Let_def binaryMask_update)
  with assms show ?thesis by (simp add: createRandomDistributionMask_def Let_def)
qed

lemma water_binary:
  assumes "binaryMask N (m_cells mk)"
  shows "binaryMask N (m_cells (fst (createWaterDistributionMask rnd od (mk, n) g)))"
proof -
  have "binaryMask N (fst (fold (waterStep rnd od g) js st))"
    if "binaryMask N (fst st)" for js st
    using that
    by (induction js arbitrary: st) (simp_all add: waterStep_def Let_def binaryMask_update)
  with assms show ?thesis by (simp add: createWaterDistributionMask_def Let_def)
qed

lemma clustered_binary:
  assumes "binaryMask N (m_cells mk)"
  shows "binaryMask N (m_cells (fst (createClusteredDistributionMask rnd od (mk, n) g)))"
proof -
  have cell: "binaryMask N (fst (fold (clusterCellStep rnd ty g center r) cs st))"
    if "binaryMask N (fst st)" for cs st ty center r
    using that
    by (induction cs arbitrary: st)
       (simp_all add: clusterCellStep_def Let_def binaryMask_maskSet)
  have "binaryMask N (fst (fold (clusterStep rnd ty g r) centers st))"
    if "binaryMask N (fst st)" for centers st ty r
    using that
    by (induction centers arbitrary: st) (simp_all add: clusterStep_def cell)
  with assms show ?thesis by (simp add: createClusteredDistributionMask_def Let_def)
qed

lemma natural_binary:
  assumes "binaryMask N (m_cells mk)"
  shows "binaryMask N (m_cells (fst (createNaturalDistributionMask rnd od (mk, n) g)))"
proof -
  have seed: "binaryMask N (fst (fold (naturalSeedStep rnd ty g) js st))"
    if "binaryMask N (fst st)" for js st ty
    using that
    by (induction js arbitrary: st) (simp_all add: naturalSeedStep_def Let_def binaryMask_update)
  have step: "binaryMask N (fold (caStep ty g m) js new)"
    if "binaryMask N new" for js new ty m
    using that
    by (induction js arbitrary: new) (simp_all add: caStep_def Let_def binaryMask_maskSet)
  have iter: "binaryMask N ((caIteration ty g ^^ k) m)" if "binaryMask N m" for k m ty
    using that by (induction k) (simp_all add: caIteration_def step)
  from assms show ?thesis
    by (simp add: createNaturalDistributionMask_def Let_def iter seed)
qed

lemma createPlacementMask_binary:
  assumes "binaryMask N (m_cells mk)"
  shows "binaryMask N (m_cells (fst (createPlacementMask rnd od (mk, n) g)))"
  using assms
  by (simp add: createPlacementMask_def Let_def random_binary water_binary clustered_binary
      natural_binary)

lemma strategies_keep_header:
  "m_grid (fst (createRandomDistributionMask rnd od (mk, n) g)) = m_grid mk"
  "m_grid (fst (createNaturalDistributionMask rnd od (mk, n) g)) = m_grid mk"
  "m_grid (fst (createClusteredDistributionMask rnd od (mk, n) g)) = m_grid mk"
  "m_grid (fst (createWaterDistributionMask rnd od (mk, n) g)) = m_grid mk"
  by (simp_all add: createRandomDistributionMask_def createNaturalDistributionMask_def
      createClusteredDistributionMask_def createWaterDistributionMask_def Let_def)

lemma createPlacementMask_header:
  "m_grid (fst (createPlacementMask rnd od (mk, n) g)) = m_grid mk"
  by (simp add: createPlacementMask_def Let_def strategies_keep_header)

lemma placeObject_complete:
  assumes "masksComplete N gs st"
  shows "masksComplete N gs (placeObject rnd od d st)"
proof -
  from assms have len: "length (cells (fst (snd st))) = N" and gs: "gridSize (fst (snd st)) = gs"
    by (simp_all add: masksComplete_def)
  have e: "binaryMask N (m_cells (emptyMask (fst (snd st))))"
    by (simp add: emptyMask_def len binaryMask_replicate)
  have h: "m_grid (emptyMask (fst (snd st))) = gs" by (simp add: emptyMask_def gs)
  from assms createPlacementMask_binary[OF e] h show ?thesis
    by (auto simp add: placeObject_def Let_def masksComplete_def createPlacementMask_header)
qed

lemma processObject_complete:
  assumes "masksComplete N gs st" "processObject rnd od st = Inr st'"
  shows "masksComplete N gs st'"
  using assms
  by (cases "objectDefinitions (o_type od)")
     (auto simp add: processObject_def placeObject_complete)

lemma processObject_stores:
  assumes "objectDefinitions (o_type od) = Definition d"
  shows "\<exists>st'. processObject rnd od st = Inr st' \<and> fst st' (o_type od) \<noteq> None"
  using assms by (simp add: processObject_def placeObject_def Let_def)

lemma processObject_dom:
  assumes "fst st t \<noteq> None" "processObject rnd od st = Inr st'"
  shows "fst st' t \<noteq> None"
  using assms
  by (cases "objectDefinitions (o_type od)")
     (auto simp add: processObject_def placeObject_def Let_def)

lemma processLoop_dom:
  assumes "fst st t \<noteq> None" "processObjects rnd ods st = Inr st'"
  shows "fst st' t \<noteq> None"
  using assms
proof (induction ods arbitrary: st)
  case Nil
  then show ?case by simp
next
  case (Cons a ods)
  from Cons.prems(2) obtain s1 where s1: "processObject rnd a st = Inr s1"
    and rest: "processObjects rnd ods s1 = Inr st'"
    by (cases "processObject rnd a st") simp_all
  from Cons.prems(1) s1 have "fst s1 t \<noteq> None" by (rule processObject_dom)
  then show ?case using rest by (rule Cons.IH)
qed

lemma processLoop_stores:
  assumes "od \<in> set ods" "objectDefinitions (o_type od) = Definition d"
    "processObjects rnd ods st = Inr st'"
  shows "fst st' (o_type od) \<noteq> None"
  using assms(1,3)
proof (induction ods arbitrary: st)
  case Nil
  then show ?case by simp
next
  case (Cons a ods)
  from Cons.prems(2) obtain s1 where s1: "processObject rnd a st = Inr s1"
    and rest: "processObjects rnd ods s1 = Inr st'"
    by (cases "processObject rnd a st") simp_all
  show ?case
  proof (cases "a = od")
    case True
    from processObject_stores[OF assms(2), of rnd st] obtain s2
      where "processObject rnd od st = Inr s2" "fst s2 (o_type od) \<noteq> None" by blast
    with s1 True have "fst s1 (o_type od) \<noteq> None" by simp
    then show ?thesis using rest by (rule processLoop_dom)
  next
    case False
    with Cons.prems(1) have "od \<in> set ods" by simp
    then show ?thesis using rest by (rule Cons.IH)
  qed
qed

lemma processLoop_complete:
  assumes "masksComplete N gs st" "processObjects rnd ods st = Inr st'"
  shows "masksComplete N gs st'"
  using assms
proof (induction ods arbitrary: st)
  case Nil
  then show ?case by simp
next
  case (Cons a ods)
  from Cons.prems(2) obtain s1 where s1: "processObject rnd a st = Inr s1"
    and rest: "processObjects rnd ods s1 = Inr st'"
    by (cases "processObject rnd a st") simp_all
  from Cons.prems(1) s1 have "masksComplete N gs s1" by (rule processObject_complete)
  then show ?case using rest by (rule Cons.IH)
qed

text \<open>
  The loop returns when no type is an inherited key, and throws when one is, wherever
  the sort has put the request.
\<close>

lemma processLoop_returns:
  assumes "\<not> list_ex (\<lambda>x. objectDefinitions (o_type x) = Inherited) ods"
  shows "\<exists>st'. processObjects rnd ods st = Inr st'"
  using assms
proof (induction ods arbitrary: st)
  case Nil
  show ?case by (rule exI[of _ st]) simp
next
  case (Cons a ods)
  then show ?case
    by (cases "objectDefinitions (o_type a)") (simp_all add: processObject_def)
qed

lemma inherited_type_throws:
  assumes "list_ex (\<lambda>x. objectDefinitions (o_type x) = Inherited) ods"
  shows "processObjects rnd ods st = Inl TypeError"
  using assms
proof (induction ods arbitrary: st)
  case Nil
  then show ?case by simp
next
  case (Cons a ods)
  then show ?case
    by (cases "objectDefinitions (o_type a)") (simp_all add: processObject_def)
qed

lemma set_insertObject: "set (insertObject x xs) = insert x (set xs)"
  by (induction xs) auto

lemma set_sortObjects: "set (sortObjects xs) = set xs"
  by (induction xs) (simp_all add: sortObjects_def set_insertObject)

lemma list_ex_sortObjects: "list_ex P (sortObjects xs) = list_ex P xs"
  by (simp add: list_ex_iff set_sortObjects)

text \<open>
  When every request has a priority, the sorted list is the stable sort by priority.
\<close>

lemma insertObject_insort:
  assumes "priorityOf x \<noteq> None" "list_all (\<lambda>y. priorityOf y \<noteq> None) ys"
  shows "insertObject x ys = insort_key (\<lambda>y. the (priorityOf y)) x ys"
  using assms(2)
proof (induction ys)
  case Nil
  show ?case by simp
next
  case (Cons y ys)
  from assms(1) Cons.prems obtain px py where "priorityOf x = Some px" "priorityOf y = Some py"
    by auto
  with Cons show ?case by (simp add: comparePriority_def)
qed

lemma sortObjects_sort_key:
  assumes "list_all (\<lambda>y. priorityOf y \<noteq> None) xs"
  shows "sortObjects xs = sort_key (\<lambda>y. the (priorityOf y)) xs"
  using assms
proof (induction xs)
  case Nil
  show ?case by (simp add: sortObjects_def)
next
  case (Cons x xs)
  then have ih: "sortObjects xs = sort_key (\<lambda>y. the (priorityOf y)) xs" by simp
  from Cons.prems have "list_all (\<lambda>y. priorityOf y \<noteq> None) (sortObjects xs)"
    by (simp add: list_all_iff set_sortObjects)
  with Cons.prems have "insertObject x (sortObjects xs) =
      insort_key (\<lambda>y. the (priorityOf y)) x (sortObjects xs)"
    by (intro insertObject_insort) simp_all
  then show ?case
    by (simp add: ih) (simp add: sortObjects_def ih[symmetric])
qed

lemma length_cellSamples: "length (cellSamples getHeight c) = 25"
  by (simp add: cellSamples_def sampleCount_def length_concat upt_5 eval_nat_numeral)

lemma stored_mean_height:
  assumes "i < length (cells g)"
  shows "p_height (props (cells (calculateHeightAndSlope getHeight g) ! i)) =
           foldl (+) 0 (cellSamples getHeight (cells g ! i)) / 25"
  by (simp add: analyzed_cell[OF assms] props_def height_analyzed length_cellSamples)

text \<open>
  C9, as amended. No stage checks what the height source returns. Whatever values it
  returns, on a grid of positive dimensions whose cells carry their row-major
  coordinates, the analyzer stores for each cell the mean of its \<open>25\<close> samples as the
  cell's height, and a run on the analysed grid has one of two outcomes, neither of which
  depends on the heights. If the type of some request is a key inherited from
  \<^verbatim>\<open>Object.prototype\<close>, the run throws a \<^verbatim>\<open>TypeError\<close> and returns no mask at all. Otherwise
  the run returns, and every request whose type has a definition in the rule table has a
  complete mask in the result, one value \<open>0\<close> or \<open>1\<close> for each cell of the grid: no
  request is aborted, nothing is reported, and no mask is partial or absent.
\<close>

theorem masks_complete_for_any_heights:
  assumes "od \<in> set objects" and "objectDefinitions (o_type od) = Definition d"
    and "positiveGrid g" and "rowMajor g" and "i < length (cells g)"
  shows "p_height (props (cells (calculateHeightAndSlope getHeight g) ! i)) =
           foldl (+) 0 (cellSamples getHeight (cells g ! i)) / 25 \<and>
         (if list_ex (\<lambda>x. objectDefinitions (o_type x) = Inherited) objects
          then generatePlacementMasks rnd objects (calculateHeightAndSlope getHeight g) =
                 Inl TypeError
          else (\<exists>masks mk.
                 generatePlacementMasks rnd objects (calculateHeightAndSlope getHeight g) =
                   Inr masks \<and>
                 masks (o_type od) = Some mk \<and>
                 length (m_cells mk) = gridSize g * gridSize g \<and>
                 list_all (\<lambda>v. v = 0 \<or> v = 1) (m_cells mk) \<and>
                 m_grid mk = gridSize g))"
proof (cases "list_ex (\<lambda>x. objectDefinitions (o_type x) = Inherited) objects")
  case True
  then have "list_ex (\<lambda>x. objectDefinitions (o_type x) = Inherited) (sortObjects objects)"
    by (simp add: list_ex_sortObjects)
  then have "processObjects rnd (sortObjects objects)
               (Map.empty, calculateHeightAndSlope getHeight g, 0) = Inl TypeError"
    by (rule inherited_type_throws)
  with True stored_mean_height[OF assms(5)] show ?thesis
    by (simp add: generatePlacementMasks_def Let_def)
next
  case False
  let ?g = "calculateHeightAndSlope getHeight g"
  from False
  have "\<not> list_ex (\<lambda>x. objectDefinitions (o_type x) = Inherited) (sortObjects objects)"
    by (simp add: list_ex_sortObjects)
  then obtain st' where st': "processObjects rnd (sortObjects objects) (Map.empty, ?g, 0) = Inr st'"
    using processLoop_returns by blast
  have len: "length (cells g) = gridSize g * gridSize g"
    using assms(4) by (simp add: rowMajor_def)
  have "masksComplete (length (cells g)) (gridSize g) (Map.empty, ?g, 0)"
    by (simp add: masksComplete_def)
  then have c: "masksComplete (length (cells g)) (gridSize g) st'"
    using st' by (rule processLoop_complete)
  from assms(1) have "od \<in> set (sortObjects objects)" by (simp add: set_sortObjects)
  then have "fst st' (o_type od) \<noteq> None" using assms(2) st' by (rule processLoop_stores)
  then obtain mk where mk: "fst st' (o_type od) = Some mk" by auto
  with c have "binaryMask (length (cells g)) (m_cells mk) \<and> m_grid mk = gridSize g"
    unfolding masksComplete_def by blast
  with mk st' len have "\<exists>masks mk.
                 generatePlacementMasks rnd objects ?g = Inr masks \<and>
                 masks (o_type od) = Some mk \<and>
                 length (m_cells mk) = gridSize g * gridSize g \<and>
                 list_all (\<lambda>v. v = 0 \<or> v = 1) (m_cells mk) \<and>
                 m_grid mk = gridSize g"
    by (simp add: generatePlacementMasks_def Let_def binaryMask_def)
  with False stored_mean_height[OF assms(5)] show ?thesis by simp
qed

lemma rock_lookup: "objectDefinitions (o_type rockRequest) = Definition rockDef"
  by (simp add: rockRequest_def objectDefinitions_def)

lemma toString_lookup: "objectDefinitions (o_type toStringRequest) = Inherited"
  by (simp add: toStringRequest_def objectDefinitions_def objectPrototypeKeys_def)

text \<open>
  On the grid analysed from the source that returns \<open>1.5\<close> everywhere: the request for
  rocks alone gets its complete mask, and together with a request of the type \<^verbatim>\<open>toString\<close>
  the run throws.
\<close>

theorem masks_complete_for_any_heights_witness:
  "rockRequest \<in> set [rockRequest] \<and>
   rockRequest \<in> set [rockRequest, toStringRequest] \<and>
   objectDefinitions (o_type rockRequest) = Definition rockDef \<and>
   objectDefinitions (o_type toStringRequest) = Inherited \<and>
   positiveGrid (createGrid 2 2 2) \<and> rowMajor (createGrid 2 2 2) \<and>
   0 < length (cells (createGrid 2 2 2)) \<and>
   p_height (props (cells (calculateHeightAndSlope (levelMap (3 / 2)) (createGrid 2 2 2)) ! 0)) =
     3 / 2 \<and>
   (\<exists>masks mk. generatePlacementMasks lowDraws [rockRequest]
            (calculateHeightAndSlope (levelMap (3 / 2)) (createGrid 2 2 2)) = Inr masks \<and>
          masks (o_type rockRequest) = Some mk \<and>
          length (m_cells mk) = 4 \<and>
          list_all (\<lambda>v. v = 0 \<or> v = 1) (m_cells mk) \<and>
          m_grid mk = 2) \<and>
   generatePlacementMasks lowDraws [rockRequest, toStringRequest]
     (calculateHeightAndSlope (levelMap (3 / 2)) (createGrid 2 2 2)) = Inl TypeError"
proof -
  have l: "0 < length (cells (createGrid 2 2 2))" by (simp add: cells_grid2)
  have rm: "rowMajor (createGrid 2 2 2)" by (rule rowMajor_createGrid)
  have gs: "gridSize (createGrid 2 2 2) = 2" by (simp add: createGrid_def)
  have a: "rockRequest \<in> set [rockRequest]" by simp
  have b: "rockRequest \<in> set [rockRequest, toStringRequest]" by simp
  from masks_complete_for_any_heights[OF a rock_lookup positive_grid2 rm l,
      of "levelMap (3 / 2)" lowDraws]
    masks_complete_for_any_heights[OF b rock_lookup positive_grid2 rm l,
      of "levelMap (3 / 2)" lowDraws]
  show ?thesis
    by (simp add: rock_lookup toString_lookup positive_grid2 rm cells_grid2 gs samples_level
        foldl_add_replicate)
qed

lemma tallGrid_size:
  "gridSize tallGrid = 2" "length (cells tallGrid) = 4"
  "g_width tallGrid = 2" "g_height tallGrid = 2"
  by (simp_all add: tallGrid_def cells_grid2) (simp_all add: createGrid_def)

lemma tallGrid_height:
  assumes "i < 4"
  shows "p_height (props (cells tallGrid ! i)) = 3 / 2"
proof -
  from assms have "i < length (cells (createGrid 2 2 2))" by (simp add: cells_grid2)
  from level_cell_props(1)[OF this, of "3 / 2"] show ?thesis by (simp add: tallGrid_def)
qed

lemma tall_stored:
  assumes "i < 4"
  shows "suitability (cells (calculateObjectSuitability rockRequest rockDef tallGrid) ! i) ''rock''
           = Some 0"
proof -
  have "suitabilityScore rockRequest rockDef tallGrid (cells tallGrid ! i) = 0"
    by (rule gate_score_zero) (simp add: tallGrid_height[OF assms] rockDef_def)
  with stored_suitability[of i tallGrid rockRequest rockDef] assms
  show ?thesis by (simp add: tallGrid_size) (simp add: rockRequest_def)
qed

lemma sortObjects_single: "sortObjects [x] = [x]"
  by (simp add: sortObjects_def)

lemma tall_mask:
  "generatePlacementMasks lowDraws [rockRequest] tallGrid =
     Inr (Map.empty(''rock'' \<mapsto>
            \<lparr> m_grid = 2, m_width = 2, m_height = 2, m_cells = [0, 0, 0, 0] \<rparr>))"
proof -
  have t: "o_type rockRequest = ''rock''" "distributionOf rockRequest = ''random''"
    by (simp_all add: rockRequest_def distributionOf_def)
  have d: "objectDefinitions ''rock'' = Definition rockDef" by (simp add: objectDefinitions_def)
  have e: "emptyMask tallGrid = \<lparr> m_grid = 2, m_width = 2, m_height = 2, m_cells = [0, 0, 0, 0] \<rparr>"
    by (simp add: emptyMask_def tallGrid_size eval_nat_numeral)
  have r: "createRandomDistributionMask lowDraws rockRequest (emptyMask tallGrid, 0)
             (calculateObjectSuitability rockRequest rockDef tallGrid) =
           (\<lparr> m_grid = 2, m_width = 2, m_height = 2, m_cells = [0, 0, 0, 0] \<rparr>, 4)"
    by (simp add: createRandomDistributionMask_def Let_def e tallGrid_size upt_4 t
        randomStep_def suitOr0_def tall_stored lowDraws_def)
  show ?thesis
    by (simp add: generatePlacementMasks_def Let_def sortObjects_single processObject_def
        placeObject_def t d createPlacementMask_def r)
qed

text \<open>
  C9, as claimed: when the height source returns a value outside \<open>[0, 1]\<close>, the request's
  mask generation aborts and its mask is absent. The level source returns \<open>1.5\<close>; the
  analyzer stores \<open>1.5\<close> as the mean height of every cell, and the run returns with the
  complete mask of the request for rocks.
\<close>

theorem out_of_range_height_still_yields_mask:
  "levelMap (3 / 2) (1 / 10) (1 / 10) = 3 / 2 \<and>
   p_height (props (cells tallGrid ! 0)) = 3 / 2 \<and>
   generatePlacementMasks lowDraws [rockRequest] tallGrid =
     Inr (Map.empty(''rock'' \<mapsto>
            \<lparr> m_grid = 2, m_width = 2, m_height = 2, m_cells = [0, 0, 0, 0] \<rparr>))"
  by (simp add: tall_mask tallGrid_height levelMap_def)

subsection \<open>Dependence of the masks on the draws\<close>

lemma drawsLocalI:
  assumes "\<And>rnd s. cnt s \<le> cnt (f rnd s)"
    and "\<And>rnd rnd' s. (\<And>k. cnt s \<le> k \<Longrightarrow> k < cnt (f rnd s) \<Longrightarrow> rnd' k = rnd k)
           \<Longrightarrow> f rnd' s = f rnd s"
  shows "drawsLocal f cnt"
  unfolding drawsLocal_def using assms by blast

lemma drawsLocal_mono: "drawsLocal f cnt \<Longrightarrow> cnt s \<le> cnt (f rnd s)"
  unfolding drawsLocal_def by blast

lemma drawsLocal_eq:
  assumes "drawsLocal f cnt" "\<And>k. cnt s \<le> k \<Longrightarrow> k < cnt (f rnd s) \<Longrightarrow> rnd' k = rnd k"
  shows "f rnd' s = f rnd s"
  using assms unfolding drawsLocal_def by blast

lemma drawsLocal_fold:
  assumes "\<And>x. drawsLocal (\<lambda>rnd. step rnd x) cnt"
  shows "drawsLocal (\<lambda>rnd. fold (step rnd) xs) cnt"
proof (induction xs)
  case Nil
  show ?case by (rule drawsLocalI) simp_all
next
  case (Cons x xs)
  show ?case
  proof (rule drawsLocalI)
    fix rnd s
    have "cnt s \<le> cnt (step rnd x s)" using assms by (rule drawsLocal_mono)
    also have "\<dots> \<le> cnt (fold (step rnd) xs (step rnd x s))"
      using Cons.IH by (rule drawsLocal_mono)
    finally show "cnt s \<le> cnt (fold (step rnd) (x # xs) s)" by simp
  next
    fix rnd rnd' s
    assume agree: "\<And>k. cnt s \<le> k \<Longrightarrow> k < cnt (fold (step rnd) (x # xs) s) \<Longrightarrow> rnd' k = rnd k"
    let ?s1 = "step rnd x s"
    have m1: "cnt s \<le> cnt ?s1" using assms by (rule drawsLocal_mono)
    have m2: "cnt ?s1 \<le> cnt (fold (step rnd) xs ?s1)" using Cons.IH by (rule drawsLocal_mono)
    have "step rnd' x s = ?s1"
    proof (rule drawsLocal_eq[OF assms])
      fix k assume "cnt s \<le> k" "k < cnt ?s1"
      with m2 show "rnd' k = rnd k" by (intro agree) simp_all
    qed
    moreover have "fold (step rnd') xs ?s1 = fold (step rnd) xs ?s1"
    proof (rule drawsLocal_eq[OF Cons.IH])
      fix k assume "cnt ?s1 \<le> k" "k < cnt (fold (step rnd) xs ?s1)"
      with m1 show "rnd' k = rnd k" by (intro agree) simp_all
    qed
    ultimately show "fold (step rnd') (x # xs) s = fold (step rnd) (x # xs) s" by simp
  qed
qed

lemma randomStep_local: "drawsLocal (\<lambda>rnd. randomStep rnd ty g i) snd"
  by (rule drawsLocalI) (simp_all add: randomStep_def Let_def)

lemma seedStep_local: "drawsLocal (\<lambda>rnd. naturalSeedStep rnd ty g i) snd"
  by (rule drawsLocalI) (simp_all add: naturalSeedStep_def Let_def)

lemma waterStep_local: "drawsLocal (\<lambda>rnd. waterStep rnd od g i) snd"
  by (rule drawsLocalI) (simp_all add: waterStep_def Let_def)

lemma clusterCellStep_local: "drawsLocal (\<lambda>rnd. clusterCellStep rnd ty g center r c) snd"
  by (rule drawsLocalI) (simp_all add: clusterCellStep_def Let_def)

lemma clusterStep_local: "drawsLocal (\<lambda>rnd. clusterStep rnd ty g r center) snd"
  unfolding clusterStep_def by (rule drawsLocal_fold) (rule clusterCellStep_local)

text \<open>A strategy runs its loop on \<open>(mask.cells, n)\<close> and puts the result back in the mask.\<close>

lemma drawsLocal_wrap:
  assumes "drawsLocal F snd"
    and "\<And>rnd s. f rnd s = (out s (fst (F rnd (inn s, snd s))), snd (F rnd (inn s, snd s)))"
  shows "drawsLocal f snd"
proof (rule drawsLocalI)
  fix rnd s
  from drawsLocal_mono[OF assms(1), of "(inn s, snd s)" rnd]
  show "snd s \<le> snd (f rnd s)" by (simp add: assms(2))
next
  fix rnd rnd' s
  assume agree: "\<And>k. snd s \<le> k \<Longrightarrow> k < snd (f rnd s) \<Longrightarrow> rnd' k = rnd k"
  have "F rnd' (inn s, snd s) = F rnd (inn s, snd s)"
  proof (rule drawsLocal_eq[OF assms(1)])
    fix k assume "snd (inn s, snd s) \<le> k" "k < snd (F rnd (inn s, snd s))"
    then show "rnd' k = rnd k" by (intro agree) (simp_all add: assms(2))
  qed
  then show "f rnd' s = f rnd s" by (simp add: assms(2))
qed

lemma random_local: "drawsLocal (\<lambda>rnd st. createRandomDistributionMask rnd od st g) snd"
  by (rule drawsLocal_wrap[where
        F = "\<lambda>rnd. fold (randomStep rnd (o_type od) g) [0..<length (cells g)]"
        and inn = "\<lambda>s. m_cells (fst s)" and out = "\<lambda>s m. (fst s)\<lparr>m_cells := m\<rparr>"])
     (simp_all add: drawsLocal_fold randomStep_local createRandomDistributionMask_def Let_def)

lemma natural_local: "drawsLocal (\<lambda>rnd st. createNaturalDistributionMask rnd od st g) snd"
  by (rule drawsLocal_wrap[where
        F = "\<lambda>rnd. fold (naturalSeedStep rnd (o_type od) g) [0..<length (cells g)]"
        and inn = "\<lambda>s. m_cells (fst s)"
        and out = "\<lambda>s m. (fst s)\<lparr>m_cells := (caIteration (o_type od) g ^^ iterations) m\<rparr>"])
     (simp_all add: drawsLocal_fold seedStep_local createNaturalDistributionMask_def Let_def)

lemma water_local: "drawsLocal (\<lambda>rnd st. createWaterDistributionMask rnd od st g) snd"
  by (rule drawsLocal_wrap[where
        F = "\<lambda>rnd. fold (waterStep rnd od g) [0..<length (cells g)]"
        and inn = "\<lambda>s. m_cells (fst s)" and out = "\<lambda>s m. (fst s)\<lparr>m_cells := m\<rparr>"])
     (simp_all add: drawsLocal_fold waterStep_local createWaterDistributionMask_def Let_def)

lemma clustered_local: "drawsLocal (\<lambda>rnd st. createClusteredDistributionMask rnd od st g) snd"
  by (rule drawsLocal_wrap[where
        F = "\<lambda>rnd. fold (clusterStep rnd (o_type od) g (g_width g * 0.1))
               (take maxClusters (sort_key (\<lambda>c. - suitOr0 c (o_type od))
                  (filter (\<lambda>c. suitOr0 c (o_type od) > 0.6) (cells g))))"
        and inn = "\<lambda>s. m_cells (fst s)" and out = "\<lambda>s m. (fst s)\<lparr>m_cells := m\<rparr>"])
     (simp_all add: drawsLocal_fold clusterStep_local createClusteredDistributionMask_def Let_def)

lemma createPlacementMask_local: "drawsLocal (\<lambda>rnd st. createPlacementMask rnd od st g) snd"
proof -
  consider "distributionOf od = ''natural''" | "distributionOf od = ''clustered''"
    | "distributionOf od = ''water''"
    | "distributionOf od \<noteq> ''natural''" "distributionOf od \<noteq> ''clustered''"
      "distributionOf od \<noteq> ''water''"
    by blast
  then show ?thesis
  proof cases
    case 1
    then show ?thesis by (simp add: createPlacementMask_def natural_local)
  next
    case 2
    then show ?thesis by (simp add: createPlacementMask_def clustered_local)
  next
    case 3
    then show ?thesis by (simp add: createPlacementMask_def water_local)
  next
    case 4
    then show ?thesis by (simp add: createPlacementMask_def random_local)
  qed
qed

lemma placeObject_local: "drawsLocal (\<lambda>rnd. placeObject rnd od d) (\<lambda>s. snd (snd s))"
proof (rule drawsLocalI)
  fix rnd s
  from drawsLocal_mono[OF createPlacementMask_local,
      of "(emptyMask (fst (snd s)), snd (snd s))" rnd od
        "calculateObjectSuitability od d (fst (snd s))"]
  show "snd (snd s) \<le> snd (snd (placeObject rnd od d s))"
    by (simp add: placeObject_def Let_def)
next
  fix rnd rnd' :: "nat \<Rightarrow> real" and s :: "(string \<Rightarrow> mask option) \<times> grid \<times> nat"
  let ?g = "calculateObjectSuitability od d (fst (snd s))"
  let ?st = "(emptyMask (fst (snd s)), snd (snd s))"
  assume agree: "\<And>k. snd (snd s) \<le> k \<Longrightarrow> k < snd (snd (placeObject rnd od d s)) \<Longrightarrow>
    rnd' k = rnd k"
  have "createPlacementMask rnd' od ?st ?g = createPlacementMask rnd od ?st ?g"
  proof (rule drawsLocal_eq[OF createPlacementMask_local])
    fix k assume "snd ?st \<le> k" "k < snd (createPlacementMask rnd od ?st ?g)"
    then show "rnd' k = rnd k"
      by (intro agree) (simp_all add: placeObject_def Let_def)
  qed
  then show "placeObject rnd' od d s = placeObject rnd od d s"
    by (simp add: placeObject_def Let_def)
qed

lemma drawsBy_mono: "snd (snd st) \<le> drawsBy rnd ods st"
proof (induction ods arbitrary: st)
  case Nil
  show ?case by simp
next
  case (Cons a ods)
  show ?case
  proof (cases "objectDefinitions (o_type a)")
    case Undefined
    with Cons.IH[of st] show ?thesis by (simp add: processObject_def)
  next
    case (Definition d)
    have "snd (snd st) \<le> snd (snd (placeObject rnd a d st))"
      using drawsLocal_mono[OF placeObject_local] .
    also have "\<dots> \<le> drawsBy rnd ods (placeObject rnd a d st)" by (rule Cons.IH)
    finally show ?thesis using Definition by (simp add: processObject_def)
  next
    case Inherited
    then show ?thesis by (simp add: processObject_def)
  qed
qed

lemma processLoop_local:
  assumes "\<And>k. snd (snd st) \<le> k \<Longrightarrow> k < drawsBy rnd ods st \<Longrightarrow> rnd' k = rnd k"
  shows "processObjects rnd' ods st = processObjects rnd ods st"
  using assms
proof (induction ods arbitrary: st)
  case Nil
  show ?case by simp
next
  case (Cons a ods)
  show ?case
  proof (cases "objectDefinitions (o_type a)")
    case Undefined
    have "processObjects rnd' ods st = processObjects rnd ods st"
    proof (rule Cons.IH)
      fix k assume "snd (snd st) \<le> k" "k < drawsBy rnd ods st"
      then show "rnd' k = rnd k" using Undefined by (intro Cons.prems) (simp_all add: processObject_def)
    qed
    with Undefined show ?thesis by (simp add: processObject_def)
  next
    case (Definition d)
    let ?s1 = "placeObject rnd a d st"
    have m1: "snd (snd st) \<le> snd (snd ?s1)" using drawsLocal_mono[OF placeObject_local] .
    have m2: "snd (snd ?s1) \<le> drawsBy rnd ods ?s1" by (rule drawsBy_mono)
    have d: "drawsBy rnd (a # ods) st = drawsBy rnd ods ?s1"
      using Definition by (simp add: processObject_def)
    have "placeObject rnd' a d st = ?s1"
    proof (rule drawsLocal_eq[OF placeObject_local])
      fix k assume "snd (snd st) \<le> k" "k < snd (snd ?s1)"
      with m2 show "rnd' k = rnd k"
        by (intro Cons.prems) (simp_all del: drawsBy.simps add: d)
    qed
    moreover have "processObjects rnd' ods ?s1 = processObjects rnd ods ?s1"
    proof (rule Cons.IH)
      fix k assume "snd (snd ?s1) \<le> k" "k < drawsBy rnd ods ?s1"
      with m1 show "rnd' k = rnd k"
        by (intro Cons.prems) (simp_all del: drawsBy.simps add: d)
    qed
    ultimately show ?thesis using Definition by (simp add: processObject_def)
  next
    case Inherited
    then show ?thesis by (simp add: processObject_def)
  qed
qed

text \<open>
  C3, as amended. There is no seed: the strategies call the ambient \<^verbatim>\<open>Math.random()\<close>.
  On a grid of positive dimensions the masks are a function of the grid, the requests and
  the values that those calls return: a second run whose draws agree with the first
  run's on the draws that the first run makes produces the same masks.
\<close>

theorem masks_determined_by_draws:
  assumes "\<forall>k < drawsMade rnd objects g. rnd' k = rnd k" and "positiveGrid g"
  shows "generatePlacementMasks rnd' objects g = generatePlacementMasks rnd objects g"
proof -
  let ?xs = "sortObjects objects"
  have "processObjects rnd' ?xs (Map.empty, g, 0) = processObjects rnd ?xs (Map.empty, g, 0)"
  proof (rule processLoop_local)
    fix k assume "k < drawsBy rnd ?xs (Map.empty, g, 0)"
    with assms(1) show "rnd' k = rnd k" by (simp add: drawsMade_def)
  qed
  then show ?thesis by (simp add: generatePlacementMasks_def Let_def)
qed

lemma randomLoop_count:
  "snd (fold (randomStep rnd ty g) js st) = snd st + length js"
  by (induction js arbitrary: st) (simp_all add: randomStep_def Let_def)

lemma flat_drawsMade: "drawsMade rnd [rockRequest] flatGrid = 4"
proof -
  have t: "distributionOf rockRequest = ''random''" "o_type rockRequest = ''rock''"
    by (simp_all add: rockRequest_def distributionOf_def)
  have d: "objectDefinitions ''rock'' = Definition rockDef" by (simp add: objectDefinitions_def)
  show ?thesis
    by (simp add: drawsMade_def sortObjects_single processObject_def placeObject_def Let_def t d
        createPlacementMask_def createRandomDistributionMask_def randomLoop_count flatGrid_size)
qed

theorem masks_determined_by_draws_witness:
  "positiveGrid flatGrid \<and> drawsMade lowDraws [rockRequest] flatGrid = 4 \<and>
   map lowThenHigh [0..<4] = map lowDraws [0..<4] \<and>
   lowThenHigh 4 \<noteq> lowDraws 4 \<and>
   generatePlacementMasks lowThenHigh [rockRequest] flatGrid =
     generatePlacementMasks lowDraws [rockRequest] flatGrid"
proof -
  have "\<forall>k < drawsMade lowDraws [rockRequest] flatGrid. lowThenHigh k = lowDraws k"
    by (simp add: flat_drawsMade lowThenHigh_def lowDraws_def)
  from masks_determined_by_draws[OF this positive_flatGrid]
  have "generatePlacementMasks lowThenHigh [rockRequest] flatGrid =
        generatePlacementMasks lowDraws [rockRequest] flatGrid" .
  moreover have "map lowThenHigh [0..<4] = map lowDraws [0..<4]"
    by (simp add: lowThenHigh_def lowDraws_def)
  moreover have "lowThenHigh 4 \<noteq> lowDraws 4"
    by (simp add: lowThenHigh_def lowDraws_def)
  ultimately show ?thesis by (simp add: flat_drawsMade positive_flatGrid)
qed

lemma emptyMask_flat:
  "emptyMask flatGrid = \<lparr> m_grid = 2, m_width = 2, m_height = 2, m_cells = [0, 0, 0, 0] \<rparr>"
proof -
  have "g_width flatGrid = 2" "g_height flatGrid = 2"
    by (simp_all add: flatGrid_def) (simp_all add: createGrid_def)
  then show ?thesis by (simp add: emptyMask_def flatGrid_size eval_nat_numeral)
qed

lemma flat_masks:
  "generatePlacementMasks lowDraws [rockRequest] flatGrid =
     Inr (Map.empty(''rock'' \<mapsto>
            \<lparr> m_grid = 2, m_width = 2, m_height = 2, m_cells = [1, 1, 1, 1] \<rparr>))"
  "generatePlacementMasks highDraws [rockRequest] flatGrid =
     Inr (Map.empty(''rock'' \<mapsto>
            \<lparr> m_grid = 2, m_width = 2, m_height = 2, m_cells = [0, 0, 0, 0] \<rparr>))"
proof -
  have t: "distributionOf rockRequest = ''random''" "o_type rockRequest = ''rock''"
    by (simp_all add: rockRequest_def distributionOf_def)
  have d: "objectDefinitions ''rock'' = Definition rockDef" by (simp add: objectDefinitions_def)
  have g: "calculateObjectSuitability rockRequest rockDef flatGrid = scoredGrid"
    by (simp add: scoredGrid_def)
  show "generatePlacementMasks lowDraws [rockRequest] flatGrid =
     Inr (Map.empty(''rock'' \<mapsto>
            \<lparr> m_grid = 2, m_width = 2, m_height = 2, m_cells = [1, 1, 1, 1] \<rparr>))"
    by (simp add: generatePlacementMasks_def sortObjects_single processObject_def placeObject_def
        Let_def t d g
        createPlacementMask_def createRandomDistributionMask_def emptyMask_flat scoredGrid_size
        flatGrid_size upt_4 randomStep_def suitOr0_def scoredGrid_suitability lowDraws_def)
  show "generatePlacementMasks highDraws [rockRequest] flatGrid =
     Inr (Map.empty(''rock'' \<mapsto>
            \<lparr> m_grid = 2, m_width = 2, m_height = 2, m_cells = [0, 0, 0, 0] \<rparr>))"
    by (simp add: generatePlacementMasks_def sortObjects_single processObject_def placeObject_def
        Let_def t d g
        createPlacementMask_def createRandomDistributionMask_def emptyMask_flat scoredGrid_size
        flatGrid_size upt_4 randomStep_def suitOr0_def scoredGrid_suitability highDraws_def)
qed

text \<open>
  C3, as claimed: two runs on the same height source, grid and requests produce identical
  masks. Two runs of the request for rocks on the level grid, in which \<^verbatim>\<open>Math.random()\<close>
  returns \<open>0.25\<close> throughout the one and \<open>0.875\<close> throughout the other, produce the masks
  \<open>[1, 1, 1, 1]\<close> and \<open>[0, 0, 0, 0]\<close>.
\<close>

theorem masks_differ_between_runs:
  "generatePlacementMasks lowDraws [rockRequest] flatGrid =
     Inr (Map.empty(''rock'' \<mapsto>
            \<lparr> m_grid = 2, m_width = 2, m_height = 2, m_cells = [1, 1, 1, 1] \<rparr>)) \<and>
   generatePlacementMasks highDraws [rockRequest] flatGrid =
     Inr (Map.empty(''rock'' \<mapsto>
            \<lparr> m_grid = 2, m_width = 2, m_height = 2, m_cells = [0, 0, 0, 0] \<rparr>)) \<and>
   generatePlacementMasks lowDraws [rockRequest] flatGrid \<noteq>
     generatePlacementMasks highDraws [rockRequest] flatGrid"
proof -
  have "(Map.empty(''rock'' \<mapsto>
            \<lparr> m_grid = 2, m_width = 2, m_height = 2, m_cells = [1, 1, 1, 1::int] \<rparr>)) ''rock'' \<noteq>
        (Map.empty(''rock'' \<mapsto>
            \<lparr> m_grid = 2, m_width = 2, m_height = 2, m_cells = [0, 0, 0, 0] \<rparr>)) ''rock''"
    by simp
  then have "Map.empty(''rock'' \<mapsto>
            \<lparr> m_grid = 2, m_width = 2, m_height = 2, m_cells = [1, 1, 1, 1::int] \<rparr>) \<noteq>
        Map.empty(''rock'' \<mapsto>
            \<lparr> m_grid = 2::nat, m_width = 2::real, m_height = 2::real, m_cells = [0, 0, 0, 0] \<rparr>)"
    by metis
  then show ?thesis by (simp add: flat_masks)
qed

end
